theory Spec2Isabelle
  imports Main "HOL-Library.Monad_Syntax"
begin

section \<open>JavaScript values and the runtime operations the code relies on\<close>

text \<open>
  A JavaScript string is represented by the bytes of its UTF-8 encoding, a number by the
  text that ECMAScript's Number-to-String conversion gives for it (two numbers are the same
  value, up to the sign of zero, exactly when these texts are equal). A computation that
  may throw returns an option: \<open>None\<close> is a thrown exception. Every exception of the
  embedded code is raised inside a \<open>try\<close> whose handler does not look at it, so
  exceptions are not told apart.

  \<open>jsval\<close> holds what \<open>JSON.parse\<close> can return, and \<open>undefined\<close>. An object is
  the list of its own properties, an earlier entry hiding a later one of the same key.
\<close>

datatype jsval =
  JUndefined
| JNull
| JBool bool
| JNum string
| JStr string
| JArr "jsval list"
| JObj "(string \<times> jsval) list"

abbreviation nl :: char where
  "nl \<equiv> CHR 0x0A"

text \<open>ToBoolean, as used by \<open>||\<close>, \<open>&&\<close>, \<open>!\<close>, \<open>?:\<close> and \<open>if\<close>.\<close>

fun truthy :: "jsval \<Rightarrow> bool" where
  "truthy JUndefined = False"
| "truthy JNull = False"
| "truthy (JBool b) = b"
| "truthy (JNum n) = (n \<noteq> ''0'' \<and> n \<noteq> ''NaN'')"
| "truthy (JStr s) = (s \<noteq> [])"
| "truthy (JArr xs) = True"
| "truthy (JObj kvs) = True"

text \<open>
  Reading a data property \<open>v.k\<close>. It throws a TypeError on \<open>undefined\<close> and \<open>null\<close>.
  The code reads the keys pusher, ref, repository, commits, name, full_name, message,
  added, modified and removed only, which no prototype defines: a primitive or an array
  gives \<open>undefined\<close> for them, and so does an object without the key.
\<close>

fun get :: "jsval \<Rightarrow> string \<Rightarrow> jsval option" where
  "get JUndefined k = None"
| "get JNull k = None"
| "get (JObj kvs) k = Some (case map_of kvs k of Some v \<Rightarrow> v | None \<Rightarrow> JUndefined)"
| "get v k = Some JUndefined"

text \<open>\<open>Array.prototype.join\<close> on an array of strings.\<close>

fun join :: "string \<Rightarrow> string list \<Rightarrow> string" where
  "join sep [] = []"
| "join sep [x] = x"
| "join sep (x # y # ys) = x @ sep @ join sep (y # ys)"

text \<open>
  ToString, as a template literal applies it to an interpolated value. An array is joined
  with commas, \<open>undefined\<close> and \<open>null\<close> elements giving the empty text. A parsed
  object has no callable property of its own: with an own key \<open>toString\<close> the conversion
  finds no method that returns a primitive and throws a TypeError, without it
  \<open>Object.prototype.toString\<close> answers.
\<close>

fun to_string :: "jsval \<Rightarrow> string option"
  and element_strings :: "jsval list \<Rightarrow> string list option" where
  "to_string JUndefined = Some ''undefined''"
| "to_string JNull = Some ''null''"
| "to_string (JBool b) = Some (if b then ''true'' else ''false'')"
| "to_string (JNum n) = Some n"
| "to_string (JStr s) = Some s"
| "to_string (JArr xs) = map_option (join '','') (element_strings xs)"
| "to_string (JObj kvs) =
     (if map_of kvs ''toString'' \<noteq> None then None else Some ''[object Object]'')"
| "element_strings [] = Some []"
| "element_strings (x # xs) = do {
     s \<leftarrow> (if x = JUndefined \<or> x = JNull then Some [] else to_string x);
     ss \<leftarrow> element_strings xs;
     Some (s # ss)
   }"

text \<open>
  \<open>String.prototype.replace(pattern, replacement)\<close> with a string pattern and a
  replacement without \<open>$\<close>: the first occurrence of the pattern is replaced.
\<close>

fun replace_first :: "string \<Rightarrow> string \<Rightarrow> string \<Rightarrow> string" where
  "replace_first pat rep [] = (if pat = [] then rep else [])"
| "replace_first pat rep (c # cs) =
     (if take (length pat) (c # cs) = pat then rep @ drop (length pat) (c # cs)
      else c # replace_first pat rep cs)"

text \<open>\<open>v.replace(pattern, replacement)\<close>: only a string has the method.\<close>

fun js_replace :: "jsval \<Rightarrow> string \<Rightarrow> string \<Rightarrow> string option" where
  "js_replace (JStr s) pat rep = Some (replace_first pat rep s)"
| "js_replace v pat rep = None"

text \<open>\<open>v.split('\n')[0]\<close>: the text before the first line feed; only a string has the method.\<close>

fun split_first :: "jsval \<Rightarrow> string option" where
  "split_first (JStr s) = Some (takeWhile (\<lambda>c. c \<noteq> nl) s)"
| "split_first v = None"

text \<open>
  Iterating a string yields its code points: in UTF-8, a byte and the continuation
  bytes (\<open>0x80\<close> to \<open>0xBF\<close>) that follow it.
\<close>

definition is_continuation :: "char \<Rightarrow> bool" where
  "is_continuation c = (128 \<le> (of_char c :: nat) \<and> (of_char c :: nat) < 192)"

function code_points :: "string \<Rightarrow> string list" where
  "code_points [] = []"
| "code_points (c # cs) =
     (c # takeWhile is_continuation cs) # code_points (dropWhile is_continuation cs)"
  by pat_completeness auto
termination
  by (relation "measure length") (auto simp: length_dropWhile_le less_Suc_eq_le)

text \<open>The spread \<open>...v\<close>: arrays and strings are iterable, every other value throws.\<close>

fun spread :: "jsval \<Rightarrow> jsval list option" where
  "spread (JArr xs) = Some xs"
| "spread (JStr s) = Some (map JStr (code_points s))"
| "spread v = None"

text \<open>
  \<open>[...new Set(xs)]\<close>. A set keeps its members in insertion order and compares them by
  SameValueZero: primitives by value, objects and arrays by identity. Every object and
  array of a parsed payload is a node of its own, so two of them are never the same.
\<close>

fun is_primitive :: "jsval \<Rightarrow> bool" where
  "is_primitive (JArr xs) = False"
| "is_primitive (JObj kvs) = False"
| "is_primitive v = True"

definition same_value_zero :: "jsval \<Rightarrow> jsval \<Rightarrow> bool" where
  "same_value_zero a b = (is_primitive a \<and> a = b)"

definition set_add :: "jsval list \<Rightarrow> jsval \<Rightarrow> jsval list" where
  "set_add members x = (if list_ex (\<lambda>y. same_value_zero y x) members then members else members @ [x])"

definition new_Set :: "jsval list \<Rightarrow> jsval list" where
  "new_Set xs = foldl set_add [] xs"

text \<open>A non-negative integer below \<open>2^32\<close> (an array length) as a template prints it.\<close>

fun decimal :: "nat \<Rightarrow> string" where
  "decimal n =
     (if n < 10 then [''0123456789'' ! n]
      else decimal (n div 10) @ [''0123456789'' ! (n mod 10)])"

text \<open>\<open>xs.map(f)\<close> for an \<open>f\<close> that may throw.\<close>

fun map_js :: "('a \<Rightarrow> 'b option) \<Rightarrow> 'a list \<Rightarrow> 'b list option" where
  "map_js f [] = Some []"
| "map_js f (x # xs) = do { y \<leftarrow> f x; ys \<leftarrow> map_js f xs; Some (y # ys) }"

section \<open>The signature verifier\<close>

text \<open>
  \<open>Buffer.from(v)\<close>: the UTF-8 bytes of a string; \<open>null\<close>, which is what
  \<open>headers.get\<close> returns for a header the request does not carry, throws a TypeError.
\<close>

fun Buffer_from :: "string option \<Rightarrow> string option" where
  "Buffer_from None = None"
| "Buffer_from (Some s) = Some s"

text \<open>\<open>crypto.timingSafeEqual\<close> throws a RangeError on buffers of different lengths.\<close>

definition timingSafeEqual :: "string \<Rightarrow> string \<Rightarrow> bool option" where
  "timingSafeEqual a b = (if length a \<noteq> length b then None else Some (a = b))"

text \<open>
  \<open>verifyWebhook\<close> of \<open>app/api/webhook/github/route.js\<close>. The keyed digest of the
  \<open>crypto\<close> module is the parameter \<open>hmac_hex\<close>: \<open>hmac_hex secret body\<close> is the
  hexadecimal HMAC-SHA256 of \<open>body\<close> under the key \<open>secret\<close>. \<open>env_secret\<close> is
  \<open>process.env.GITHUB_WEBHOOK_SECRET\<close>, \<open>None\<close> when the variable is not set.
  \<open>verifyWebhook_compare\<close> is the body of the \<open>try\<close>.
\<close>

definition verifyWebhook_compare :: "string option \<Rightarrow> string \<Rightarrow> bool option" where
  "verifyWebhook_compare signature digest = do {
     sigBuffer \<leftarrow> Buffer_from signature;
     digestBuffer \<leftarrow> Buffer_from (Some digest);
     if length sigBuffer \<noteq> length digestBuffer then Some False
     else timingSafeEqual sigBuffer digestBuffer
   }"

definition verifyWebhook ::
  "(string \<Rightarrow> string \<Rightarrow> string) \<Rightarrow> string option \<Rightarrow> string \<Rightarrow> string option \<Rightarrow> bool" where
  "verifyWebhook hmac_hex env_secret rawBody signature =
     (case env_secret of
        None \<Rightarrow> False
      | Some secret \<Rightarrow>
          if secret = [] then False
          else
            let digest = ''sha256='' @ hmac_hex secret rawBody in
            (case verifyWebhook_compare signature digest of
               None \<Rightarrow> False
             | Some equal \<Rightarrow> equal))"

text \<open>
  \<open>verifyWebhook\<close> of \<open>services/github-webhook.js\<close>, which the route no longer imports.
  \<open>stringify\<close> is \<open>JSON.stringify\<close>, \<open>None\<close> where it returns \<open>undefined\<close>, which
  \<open>hmac.update\<close> refuses; \<open>const_secret\<close> is the constant \<open>GITHUB_WEBHOOK_SECRET\<close>
  of \<open>lib/constants\<close>, and \<open>createHmac\<close> refuses an undefined key. The whole body is
  inside the \<open>try\<close>.
\<close>

definition service_verifyWebhook ::
  "(string \<Rightarrow> string \<Rightarrow> string) \<Rightarrow> (jsval \<Rightarrow> string option) \<Rightarrow> string option \<Rightarrow>
   jsval \<Rightarrow> string option \<Rightarrow> bool" where
  "service_verifyWebhook hmac_hex stringify const_secret payload signature =
     (case do {
             secret \<leftarrow> const_secret;
             text \<leftarrow> stringify payload;
             let calculated = ''sha256='' @ hmac_hex secret text;
             calculatedBuffer \<leftarrow> Buffer_from (Some calculated);
             signatureBuffer \<leftarrow> Buffer_from signature;
             timingSafeEqual calculatedBuffer signatureBuffer
           } of
        None \<Rightarrow> False
      | Some equal \<Rightarrow> equal)"

section \<open>The push event formatter\<close>

definition rocket :: string where
  "rocket = [CHR 0xF0, CHR 0x9F, CHR 0x9A, CHR 0x80]"

definition divider :: string where
  "divider = concat (replicate 18 [CHR 0xE2, CHR 0x94, CHR 0x80])"

definition bust :: string where
  "bust = [CHR 0xF0, CHR 0x9F, CHR 0x91, CHR 0xA4]"

definition package :: string where
  "package = [CHR 0xF0, CHR 0x9F, CHR 0x93, CHR 0xA6]"

definition herb :: string where
  "herb = [CHR 0xF0, CHR 0x9F, CHR 0x8C, CHR 0xBF]"

definition numbers :: string where
  "numbers = [CHR 0xF0, CHR 0x9F, CHR 0x94, CHR 0xA2]"

definition scroll :: string where
  "scroll = [CHR 0xF0, CHR 0x9F, CHR 0x93, CHR 0x9C]"

definition memo :: string where
  "memo = [CHR 0xF0, CHR 0x9F, CHR 0x93, CHR 0x9D]"

definition plus_sign :: string where
  "plus_sign = [CHR 0xE2, CHR 0x9E, CHR 0x95]"

definition pencil :: string where
  "pencil = [CHR 0xE2, CHR 0x9C, CHR 0x8F, CHR 0xEF, CHR 0xB8, CHR 0x8F]"

definition wastebasket :: string where
  "wastebasket = [CHR 0xF0, CHR 0x9F, CHR 0x97, CHR 0x91, CHR 0xEF, CHR 0xB8, CHR 0x8F]"

definition clock_face :: string where
  "clock_face = [CHR 0xF0, CHR 0x9F, CHR 0x95, CHR 0x92]"

definition warning_sign :: string where
  "warning_sign = [CHR 0xE2, CHR 0x9A, CHR 0xA0, CHR 0xEF, CHR 0xB8, CHR 0x8F]"

text \<open>Line 33: \<open>Array.isArray(payload.commits) ? payload.commits : []\<close>.\<close>

definition commits_of :: "jsval \<Rightarrow> jsval list" where
  "commits_of payload = (case get payload ''commits'' of Some (JArr xs) \<Rightarrow> xs | _ \<Rightarrow> [])"

text \<open>Line 40, the top commit message.\<close>

definition top_commit_message :: "jsval list \<Rightarrow> string option" where
  "top_commit_message commits =
     (case commits of
        [] \<Rightarrow> Some ''No commit message provided''
      | c # cs \<Rightarrow>
          if truthy c then do {
            m \<leftarrow> get c ''message'';
            if truthy m then split_first m else Some ''No commit message provided''
          }
          else Some ''No commit message provided'')"

text \<open>Lines 43 to 46, the callback of \<open>map\<close> and the list of commit messages.\<close>

definition commit_line :: "jsval \<Rightarrow> string option" where
  "commit_line commit = do {
     m \<leftarrow> get commit ''message'';
     message \<leftarrow> (if truthy m then split_first m else Some ''No message'');
     Some (''  - '' @ message)
   }"

definition commit_messages :: "jsval list \<Rightarrow> string option" where
  "commit_messages commits = do {
     ls \<leftarrow> map_js commit_line (take 2 commits);
     let joined = join [nl] ls;
     Some (if joined = [] then ''  - None'' else joined)
   }"

text \<open>Lines 52 to 56, the callback of \<open>forEach\<close> on the three accumulators.\<close>

definition push_field :: "jsval \<Rightarrow> string \<Rightarrow> jsval list \<Rightarrow> jsval list option" where
  "push_field commit k files = do {
     f \<leftarrow> get commit k;
     if truthy f then do { xs \<leftarrow> spread f; Some (files @ xs) } else Some files
   }"

fun collect_files ::
  "jsval list \<Rightarrow> jsval list \<times> jsval list \<times> jsval list \<Rightarrow>
   (jsval list \<times> jsval list \<times> jsval list) option" where
  "collect_files [] acc = Some acc"
| "collect_files (commit # commits) (added, modified, removed) = do {
     added' \<leftarrow> push_field commit ''added'' added;
     modified' \<leftarrow> push_field commit ''modified'' modified;
     removed' \<leftarrow> push_field commit ''removed'' removed;
     collect_files commits (added', modified', removed')
   }"

text \<open>Line 63, \<open>formatFileList\<close>.\<close>

definition file_line :: "jsval \<Rightarrow> string option" where
  "file_line f = do { t \<leftarrow> to_string f; Some (''  - '' @ t) }"

definition formatFileList :: "jsval list \<Rightarrow> string option" where
  "formatFileList files =
     (if length files \<noteq> 0 then map_option (join [nl]) (map_js file_line files)
      else Some ''  - None'')"

text \<open>
  Lines 70 and 92: \<open>now\<close> is the text \<open>toISOString()\<close> gave for the clock reading.
\<close>

definition timestamp :: "string \<Rightarrow> string" where
  "timestamp now = take 19 (replace_first ''T'' '' '' now) @ '' UTC''"

text \<open>
  The local variables of \<open>handlePushEvent\<close> as the returned template reads them:
  \<open>pusherName\<close> and \<open>repoFullName\<close> hold the text that the template's conversion of
  \<open>pusher.name\<close> and of \<open>repoFullName\<close> gives.
\<close>

record push_locals =
  pusherName :: string
  repoFullName :: string
  branch :: string
  commitCount :: nat
  commitMessages :: string
  topCommitMessage :: string
  addedFiles :: "jsval list"
  modifiedFiles :: "jsval list"
  removedFiles :: "jsval list"
  addedText :: string
  modifiedText :: string
  removedText :: string

text \<open>
  Lines 30 to 66 and the conversions of lines 38, 78 and 79: everything in the \<open>try\<close>
  that can throw. \<open>None\<close> is an exception, which the \<open>catch\<close> receives whichever
  statement raised it.
\<close>

definition handlePushEvent_locals :: "jsval \<Rightarrow> push_locals option" where
  "handlePushEvent_locals payload = do {
     p \<leftarrow> get payload ''pusher'';
     let pusher = (if truthy p then p else JObj [(''name'', JStr ''Unknown'')]);
     r \<leftarrow> get payload ''ref'';
     let ref = (if truthy r then r else JStr ''refs/heads/unknown'');
     rp \<leftarrow> get payload ''repository'';
     let repository =
       (if truthy rp then rp
        else JObj [(''name'', JStr ''unknown-repo''), (''full_name'', JStr ''unknown/unknown-repo'')]);
     let commits = commits_of payload;
     stripped \<leftarrow> js_replace ref ''refs/heads/'' [];
     let branch = (if stripped = [] then ''unknown'' else stripped);
     let commitCount = length commits;
     name \<leftarrow> get pusher ''name'';
     pusherName \<leftarrow> to_string name;
     full_name \<leftarrow> get repository ''full_name'';
     repo_name \<leftarrow> get repository ''name'';
     let repoFullName =
       (if truthy full_name then full_name
        else if truthy repo_name then repo_name
        else JStr ''unknown/unknown-repo'');
     topCommitMessage \<leftarrow> top_commit_message commits;
     commitMessages \<leftarrow> commit_messages commits;
     (added, modified, removed) \<leftarrow> collect_files commits ([], [], []);
     let addedFiles = take 3 (new_Set added);
     let modifiedFiles = take 3 (new_Set modified);
     let removedFiles = take 3 (new_Set removed);
     addedList \<leftarrow> formatFileList addedFiles;
     modifiedList \<leftarrow> formatFileList modifiedFiles;
     removedList \<leftarrow> formatFileList removedFiles;
     repoText \<leftarrow> to_string repoFullName;
     Some \<lparr> pusherName = pusherName, repoFullName = repoText, branch = branch,
            commitCount = commitCount, commitMessages = commitMessages,
            topCommitMessage = topCommitMessage,
            addedFiles = addedFiles, modifiedFiles = modifiedFiles, removedFiles = removedFiles,
            addedText = plus_sign @ '' *Added*:'' @ [nl] @ addedList,
            modifiedText = pencil @ '' *Modified*:'' @ [nl] @ modifiedList,
            removedText = wastebasket @ '' *Removed*:'' @ [nl] @ removedList \<rparr>
   }"

text \<open>Lines 73 to 89, the returned template.\<close>

definition push_alert :: "string \<Rightarrow> push_locals \<Rightarrow> string" where
  "push_alert now v =
     rocket @ '' *New Push Alert* '' @ rocket @ [nl] @
     divider @ [nl, nl] @
     bust @ '' *Pusher*: @'' @ pusherName v @ [nl, nl] @
     package @ '' *Repository*: '' @ repoFullName v @ [nl, nl] @
     herb @ '' *Branch*: '' @ branch v @ [nl, nl] @
     numbers @ '' *Commits*: '' @ decimal (commitCount v) @
       (if commitCount v = 0 then '' (No commits found)'' else []) @ [nl, nl] @
     scroll @ '' *Commit Messages*:'' @ [nl] @ commitMessages v @ [nl, nl] @
     memo @ '' *Top Commit*: '' @ topCommitMessage v @ [nl, nl] @
     addedText v @ [nl, nl] @
     modifiedText v @ [nl, nl] @
     removedText v @ [nl, nl] @
     clock_face @ '' *Pushed At*: '' @ timestamp now @ [nl] @
     divider @ [nl, nl]"

text \<open>Lines 92 and 93, the handler of the \<open>catch\<close>.\<close>

definition push_failed :: "string \<Rightarrow> string" where
  "push_failed now =
     warning_sign @ '' *Push processing failed* '' @ warning_sign @ [nl] @
     clock_face @ '' *At*: '' @ timestamp now"

text \<open>
  \<open>handlePushEvent\<close>: \<open>now\<close> is the clock reading of line 69, \<open>now_catch\<close> the one of
  line 92.
\<close>

definition handlePushEvent_try :: "string \<Rightarrow> jsval \<Rightarrow> string option" where
  "handlePushEvent_try now payload = map_option (push_alert now) (handlePushEvent_locals payload)"

definition handlePushEvent :: "string \<Rightarrow> string \<Rightarrow> jsval \<Rightarrow> string" where
  "handlePushEvent now now_catch payload =
     (case handlePushEvent_try now payload of
        Some message \<Rightarrow> message
      | None \<Rightarrow> push_failed now_catch)"

section \<open>The request handler\<close>

text \<open>
  \<open>req.text()\<close> decodes the bytes of the body as UTF-8: a leading byte order mark is
  dropped, a well-formed sequence stands for its code point, and every maximal ill-formed
  part is replaced by U+FFFD. As a text is held by its UTF-8 bytes, the decoder copies the
  well-formed sequences and writes \<open>EF BF BD\<close> for the rest. \<open>needed\<close> counts the
  continuation bytes still to come, \<open>lower\<close> and \<open>upper\<close> bound the next one, and
  \<open>seen\<close> holds the bytes of the sequence read so far; a byte that cannot continue a
  sequence is read again as the start of the next.
\<close>

definition replacement_character :: string where
  "replacement_character = [CHR 0xEF, CHR 0xBF, CHR 0xBD]"

function utf8_decode :: "nat \<Rightarrow> nat \<Rightarrow> nat \<Rightarrow> string \<Rightarrow> string \<Rightarrow> string" where
  "utf8_decode needed lower upper seen [] = (if needed = 0 then [] else replacement_character)"
| "utf8_decode needed lower upper seen (b # bs) =
     (if needed = 0 then
        (if (of_char b :: nat) \<le> 0x7F then b # utf8_decode 0 0x80 0xBF [] bs
         else if 0xC2 \<le> (of_char b :: nat) \<and> (of_char b :: nat) \<le> 0xDF
           then utf8_decode 1 0x80 0xBF [b] bs
         else if 0xE0 \<le> (of_char b :: nat) \<and> (of_char b :: nat) \<le> 0xEF
           then utf8_decode 2 (if b = CHR 0xE0 then 0xA0 else 0x80)
                  (if b = CHR 0xED then 0x9F else 0xBF) [b] bs
         else if 0xF0 \<le> (of_char b :: nat) \<and> (of_char b :: nat) \<le> 0xF4
           then utf8_decode 3 (if b = CHR 0xF0 then 0x90 else 0x80)
                  (if b = CHR 0xF4 then 0x8F else 0xBF) [b] bs
         else replacement_character @ utf8_decode 0 0x80 0xBF [] bs)
      else if (of_char b :: nat) < lower \<or> upper < (of_char b :: nat)
        then replacement_character @ utf8_decode 0 0x80 0xBF [] (b # bs)
      else if needed = 1 then seen @ [b] @ utf8_decode 0 0x80 0xBF [] bs
      else utf8_decode (needed - 1) 0x80 0xBF (seen @ [b]) bs)"
  by pat_completeness auto
termination
  by (relation "measure (\<lambda>(needed, lower, upper, seen, bs).
        2 * length bs + (if needed = 0 then 0 else 1))")
    auto

definition body_text :: "string \<Rightarrow> string" where
  "body_text bytes =
     utf8_decode 0 0x80 0xBF []
       (if take 3 bytes = [CHR 0xEF, CHR 0xBB, CHR 0xBF] then drop 3 bytes else bytes)"

text \<open>
  \<open>POST\<close> of \<open>route.js\<close>. A request is its two headers, \<open>None\<close> for a header it
  does not carry, and the bytes of its body as they are received; \<open>rawBody\<close> is the text
  \<open>req.text()\<close> makes of them, which \<open>hmac.update(rawBody, 'utf-8')\<close> encodes again.
  \<open>parse\<close> is \<open>JSON.parse\<close> and \<open>send\<close> is \<open>sendPushAlertAction\<close> of
  \<open>action/telegram\<close>, answering whether \<open>result.success\<close> holds; both give
  \<open>None\<close> when they throw.
\<close>

record request =
  signature_header :: "string option"
  event_header :: "string option"
  body_bytes :: string

datatype response = Response string nat

definition POST ::
  "(string \<Rightarrow> string \<Rightarrow> string) \<Rightarrow> string option \<Rightarrow> (string \<Rightarrow> jsval option) \<Rightarrow>
   (string \<Rightarrow> bool option) \<Rightarrow> string \<Rightarrow> string \<Rightarrow> request \<Rightarrow> response" where
  "POST hmac_hex env_secret parse send now now_catch req =
     (let signature = signature_header req; rawBody = body_text (body_bytes req) in
      if signature = None \<or> signature = Some [] \<or>
         \<not> verifyWebhook hmac_hex env_secret rawBody signature
      then Response ''Invalid signature'' 401
      else
        (case parse rawBody of
           None \<Rightarrow> Response ''Internal Server Error'' 500
         | Some payload \<Rightarrow>
             if event_header req \<noteq> Some ''push'' then Response ''Ignored event'' 200
             else
               (case send (handlePushEvent now now_catch payload) of
                  None \<Rightarrow> Response ''Internal Server Error'' 500
                | Some success \<Rightarrow>
                    if success then Response ''OK'' 200
                    else Response ''Internal Server Error'' 500)))"

section \<open>The specification's vocabulary\<close>

text \<open>
  The definitions of this section follow the words of the specification, not the code;
  the theorems compare the code with them.
\<close>

text \<open>Stripping a prefix: the text after it when the text starts with it, the text itself otherwise.\<close>

definition strip_prefix :: "string \<Rightarrow> string \<Rightarrow> string" where
  "strip_prefix p s = (if take (length p) s = p then drop (length p) s else s)"

definition branch_by_prefix :: "string \<Rightarrow> string" where
  "branch_by_prefix ref =
     (let b = strip_prefix ''refs/heads/'' ref in if b = [] then ''unknown'' else b)"

text \<open>\<open>occurs_at p s i\<close>: the text \<open>p\<close> stands in \<open>s\<close> at position \<open>i\<close>.\<close>

definition occurs_at :: "string \<Rightarrow> string \<Rightarrow> nat \<Rightarrow> bool" where
  "occurs_at p s i = (take (length p) (drop i s) = p)"

text \<open>The first line of a text, and all its lines.\<close>

definition first_line :: "string \<Rightarrow> string" where
  "first_line s = takeWhile (\<lambda>c. c \<noteq> nl) s"

fun split_lines :: "string \<Rightarrow> string list" where
  "split_lines [] = [[]]"
| "split_lines (c # cs) =
     (if c = nl then [] # split_lines cs
      else (case split_lines cs of [] \<Rightarrow> [[c]] | l # ls \<Rightarrow> (c # l) # ls))"

text \<open>The message of a commit, empty when the commit carries none.\<close>

definition message_of :: "jsval \<Rightarrow> string" where
  "message_of commit = (case get commit ''message'' of Some (JStr s) \<Rightarrow> s | _ \<Rightarrow> [])"

text \<open>
  The commit message list in the specification's words: the first line of the message of
  each of the first two commits, and a single \<open>None\<close> line for no commit.
\<close>

definition first_lines_of_two :: "jsval list \<Rightarrow> string list" where
  "first_lines_of_two commits =
     (if commits = [] then [''  - None'']
      else map (\<lambda>c. ''  - '' @ first_line (message_of c)) (take 2 commits))"

text \<open>What the code lists for a commit: the placeholder when the message is empty or absent.\<close>

definition listed_message :: "jsval \<Rightarrow> string" where
  "listed_message commit =
     (if message_of commit = [] then ''No message'' else first_line (message_of commit))"

definition listed_lines :: "jsval list \<Rightarrow> string list" where
  "listed_lines commits =
     (if commits = [] then [''  - None'']
      else map (\<lambda>c. ''  - '' @ listed_message c) (take 2 commits))"

text \<open>A bulleted list of texts, \<open>None\<close> for the empty list.\<close>

definition bullet_list :: "string list \<Rightarrow> string" where
  "bullet_list fs = (if fs = [] then ''  - None'' else join [nl] (map (\<lambda>f. ''  - '' @ f) fs))"

text \<open>
  The file lists of a commit as the data model types them: a field is an array of
  strings, or absent (falsy).
\<close>

fun is_text :: "jsval \<Rightarrow> bool" where
  "is_text (JStr s) = True"
| "is_text v = False"

fun text_of :: "jsval \<Rightarrow> string" where
  "text_of (JStr s) = s"
| "text_of v = []"

definition file_field_typed :: "string \<Rightarrow> jsval \<Rightarrow> bool" where
  "file_field_typed k commit =
     (case get commit k of
        None \<Rightarrow> False
      | Some (JArr xs) \<Rightarrow> list_all is_text xs
      | Some f \<Rightarrow> \<not> truthy f)"

definition commit_typed :: "jsval \<Rightarrow> bool" where
  "commit_typed commit =
     (file_field_typed ''added'' commit \<and> file_field_typed ''modified'' commit \<and>
      file_field_typed ''removed'' commit)"

definition file_field :: "string \<Rightarrow> jsval \<Rightarrow> jsval list" where
  "file_field k commit = (case get commit k of Some (JArr xs) \<Rightarrow> xs | _ \<Rightarrow> [])"

text \<open>One field concatenated across all commits, in commit order.\<close>

definition all_files :: "string \<Rightarrow> jsval \<Rightarrow> jsval list" where
  "all_files k payload = concat (map (file_field k) (commits_of payload))"

text \<open>Deduplication by value: every value once.\<close>

fun unique :: "'a list \<Rightarrow> 'a list" where
  "unique [] = []"
| "unique (x # xs) = x # unique (removeAll x xs)"

text \<open>
  First-occurrence order: the entries at the positions where a value stands for the first
  time, in the order of these positions.
\<close>

definition first_occurrences :: "'a list \<Rightarrow> 'a list" where
  "first_occurrences xs =
     map (\<lambda>i. xs ! i) (filter (\<lambda>i. xs ! i \<notin> set (take i xs)) [0..<length xs])"

section \<open>Properties of the signature verifier\<close>

lemma verifyWebhook_compare_eq:
  "verifyWebhook_compare signature digest =
     (case signature of None \<Rightarrow> None | Some s \<Rightarrow> Some (s = digest))"
  by (cases signature) (auto simp: verifyWebhook_compare_def timingSafeEqual_def)

lemma verifyWebhook_Some:
  "verifyWebhook hmac_hex (Some secret) rawBody signature =
     (secret \<noteq> [] \<and> signature = Some (''sha256='' @ hmac_hex secret rawBody))"
  by (cases signature) (auto simp: verifyWebhook_def verifyWebhook_compare_eq Let_def)

lemma verifyWebhook_None: "\<not> verifyWebhook hmac_hex None rawBody signature"
  by (simp add: verifyWebhook_def)

lemma verifyWebhook_iff:
  "verifyWebhook hmac_hex env_secret rawBody signature =
     (\<exists>secret. env_secret = Some secret \<and> secret \<noteq> [] \<and>
        signature = Some (''sha256='' @ hmac_hex secret rawBody))"
  by (cases env_secret) (simp_all add: verifyWebhook_None verifyWebhook_Some)

text \<open>
  The verifier of \<open>services/github-webhook.js\<close> takes the digest of the serialised
  payload instead, and accepts under an empty key.
\<close>

lemma service_verifyWebhook_Some:
  "service_verifyWebhook hmac_hex stringify (Some secret) payload (Some s) =
     (\<exists>text. stringify payload = Some text \<and> s = ''sha256='' @ hmac_hex secret text)"
  by (cases "stringify payload")
    (auto simp: service_verifyWebhook_def timingSafeEqual_def Let_def)

text \<open>
  C1, as amended: for every body and every non-empty secret, verifying the body against
  \<open>sha256=\<close> followed by the hexadecimal HMAC-SHA256 of the body under the secret returns
  true.
\<close>

theorem verifyWebhook_accepts_own_digest:
  assumes "secret \<noteq> []"
  shows "verifyWebhook hmac_hex (Some secret) body (Some (''sha256='' @ hmac_hex secret body))"
  using assms by (simp add: verifyWebhook_Some)

theorem verifyWebhook_accepts_own_digest_witness:
  "\<forall>hmac_hex. verifyWebhook hmac_hex (Some ''s3cret'') ''{}''
      (Some (''sha256='' @ hmac_hex ''s3cret'' ''{}''))"
proof
  fix hmac_hex :: "string \<Rightarrow> string \<Rightarrow> string"
  have "''s3cret'' \<noteq> []" by simp
  then show "verifyWebhook hmac_hex (Some ''s3cret'') ''{}''
      (Some (''sha256='' @ hmac_hex ''s3cret'' ''{}''))"
    by (rule verifyWebhook_accepts_own_digest)
qed

text \<open>
  C1 as stated fails for the empty secret: the guard of line 53 rejects before any digest
  is computed, whatever the digest function.
\<close>

theorem verifyWebhook_empty_secret_counterexample:
  "\<forall>hmac_hex. \<not> verifyWebhook hmac_hex (Some []) ''{}'' (Some (''sha256='' @ hmac_hex [] ''{}''))"
  by (simp add: verifyWebhook_def)

lemma utf8_decode_ascii:
  "\<forall>b\<in>set bs. (of_char b :: nat) \<le> 0x7F \<Longrightarrow> utf8_decode 0 0x80 0xBF [] bs = bs"
  by (induction bs) auto

text \<open>The text of a body of ASCII bytes is the body.\<close>

lemma body_text_ascii:
  assumes "\<forall>b\<in>set bytes. (of_char b :: nat) \<le> 0x7F"
  shows "body_text bytes = bytes"
proof -
  have "take 3 bytes \<noteq> [CHR 0xEF, CHR 0xBB, CHR 0xBF]"
  proof
    assume "take 3 bytes = [CHR 0xEF, CHR 0xBB, CHR 0xBF]"
    then have "CHR 0xEF \<in> set (take 3 bytes)" by simp
    then have "CHR 0xEF \<in> set bytes" by (rule in_set_takeD)
    with assms have "(of_char (CHR 0xEF) :: nat) \<le> 0x7F" by blast
    then show False by simp
  qed
  with assms show ?thesis by (simp add: body_text_def utf8_decode_ascii)
qed

lemma body_text_byte_order_mark: "body_text [CHR 0xEF, CHR 0xBB, CHR 0xBF, CHR 0x7B, CHR 0x7D] = ''{}''"
  by (simp add: body_text_def)

text \<open>
  The handler answers 401 unless the header is \<open>sha256=\<close> followed by the digest of the
  text of the body under a non-empty secret, whatever \<open>JSON.parse\<close> would make of it.
\<close>

lemma POST_rejects_iff:
  "(POST hmac_hex env_secret parse send now now_catch req = Response ''Invalid signature'' 401) =
     (\<not> (\<exists>secret. env_secret = Some secret \<and> secret \<noteq> [] \<and>
        signature_header req =
          Some (''sha256='' @ hmac_hex secret (body_text (body_bytes req)))))"
  unfolding POST_def Let_def verifyWebhook_iff
  by (auto split: option.splits)

text \<open>
  C2: the code departs from the claim. The verifier of \<open>services/github-webhook.js\<close>
  takes its digest over \<open>JSON.stringify(payload)\<close>: given the signature of the raw body,
  it accepts only when the serialised payload has the same digest as the raw body. The
  verifier of \<open>route.js\<close> takes its digest over the text \<open>req.text()\<close> makes of the
  body, before any parsing: for the body \<open>EF BB BF 7B 7D\<close>, signed as received, the
  handler answers 401 unless the digests of the received bytes and of \<open>{}\<close> coincide.
\<close>

theorem verifiers_digest_inputs:
  "service_verifyWebhook hmac_hex stringify (Some secret) payload
       (Some (''sha256='' @ hmac_hex secret raw)) =
     (\<exists>text. stringify payload = Some text \<and> hmac_hex secret text = hmac_hex secret raw)
   \<and>
   (POST hmac_hex (Some ''s3cret'') parse send now now_catch
       \<lparr>signature_header = Some (''sha256='' @ hmac_hex ''s3cret'' [CHR 0xEF, CHR 0xBB, CHR 0xBF, CHR 0x7B, CHR 0x7D]),
        event_header = Some ''push'', body_bytes = [CHR 0xEF, CHR 0xBB, CHR 0xBF, CHR 0x7B, CHR 0x7D]\<rparr>
      = Response ''Invalid signature'' 401) =
     (hmac_hex ''s3cret'' [CHR 0xEF, CHR 0xBB, CHR 0xBF, CHR 0x7B, CHR 0x7D] \<noteq> hmac_hex ''s3cret'' ''{}'')"
proof
  show "service_verifyWebhook hmac_hex stringify (Some secret) payload
       (Some (''sha256='' @ hmac_hex secret raw)) =
     (\<exists>text. stringify payload = Some text \<and> hmac_hex secret text = hmac_hex secret raw)"
    by (auto simp: service_verifyWebhook_Some)
  show "(POST hmac_hex (Some ''s3cret'') parse send now now_catch
       \<lparr>signature_header = Some (''sha256='' @ hmac_hex ''s3cret'' [CHR 0xEF, CHR 0xBB, CHR 0xBF, CHR 0x7B, CHR 0x7D]),
        event_header = Some ''push'', body_bytes = [CHR 0xEF, CHR 0xBB, CHR 0xBF, CHR 0x7B, CHR 0x7D]\<rparr>
      = Response ''Invalid signature'' 401) =
     (hmac_hex ''s3cret'' [CHR 0xEF, CHR 0xBB, CHR 0xBF, CHR 0x7B, CHR 0x7D] \<noteq> hmac_hex ''s3cret'' ''{}'')"
    by (simp add: POST_rejects_iff body_text_byte_order_mark)
qed

text \<open>
  C3: the verifier returns false, and throws nothing, when the secret is unset or empty,
  when the signature header is missing, when the header's length differs from the length of
  the expected \<open>sha256=\<close> digest, and when the comparison raises an exception.
\<close>

theorem verifyWebhook_failures_are_false:
  "(env_secret = None \<or> env_secret = Some [] \<longrightarrow>
      verifyWebhook hmac_hex env_secret body signature = False)
   \<and> verifyWebhook hmac_hex env_secret body None = False
   \<and> (length s \<noteq> length (''sha256='' @ hmac_hex secret body) \<longrightarrow>
      verifyWebhook hmac_hex (Some secret) body (Some s) = False)
   \<and> (verifyWebhook_compare signature (''sha256='' @ hmac_hex secret body) = None \<longrightarrow>
      verifyWebhook hmac_hex (Some secret) body signature = False)"
  by (auto simp: verifyWebhook_iff verifyWebhook_compare_eq split: option.splits)

theorem verifyWebhook_failures_are_false_witness:
  "\<forall>hmac_hex.
     verifyWebhook hmac_hex None ''{}'' (Some ''sha256=00'') = False
   \<and> verifyWebhook hmac_hex (Some []) ''{}'' (Some ''sha256=00'') = False
   \<and> verifyWebhook hmac_hex (Some ''s3cret'') ''{}'' None = False
   \<and> verifyWebhook hmac_hex (Some ''s3cret'') ''{}'' (Some ''sha1'') = False
   \<and> verifyWebhook_compare None (''sha256='' @ hmac_hex ''s3cret'' ''{}'') = None"
proof
  fix hmac_hex :: "string \<Rightarrow> string \<Rightarrow> string"
  have len: "length ''sha1'' \<noteq> length (''sha256='' @ hmac_hex ''s3cret'' ''{}'')"
    by simp
  have thrown: "verifyWebhook_compare None (''sha256='' @ hmac_hex ''s3cret'' ''{}'') = None"
    by (simp add: verifyWebhook_compare_def)
  show "verifyWebhook hmac_hex None ''{}'' (Some ''sha256=00'') = False
   \<and> verifyWebhook hmac_hex (Some []) ''{}'' (Some ''sha256=00'') = False
   \<and> verifyWebhook hmac_hex (Some ''s3cret'') ''{}'' None = False
   \<and> verifyWebhook hmac_hex (Some ''s3cret'') ''{}'' (Some ''sha1'') = False
   \<and> verifyWebhook_compare None (''sha256='' @ hmac_hex ''s3cret'' ''{}'') = None"
    using len thrown
      verifyWebhook_failures_are_false [of None hmac_hex "''{}''" "Some ''sha256=00''"]
      verifyWebhook_failures_are_false [of "Some []" hmac_hex "''{}''" "Some ''sha256=00''"]
      verifyWebhook_failures_are_false [of "Some ''s3cret''" hmac_hex "''{}''" None
        "''sha1''" "''s3cret''"]
    by blast
qed

section \<open>Properties of the push event formatter\<close>

lemma locals_SomeE:
  assumes "handlePushEvent_locals payload = Some v"
  obtains p r rp stripped name pn fn rn top cm a m d al ml rl rt where
    "get payload ''pusher'' = Some p"
    "get payload ''ref'' = Some r"
    "get payload ''repository'' = Some rp"
    "js_replace (if truthy r then r else JStr ''refs/heads/unknown'') ''refs/heads/'' [] = Some stripped"
    "get (if truthy p then p else JObj [(''name'', JStr ''Unknown'')]) ''name'' = Some name"
    "to_string name = Some pn"
    "get (if truthy rp then rp
        else JObj [(''name'', JStr ''unknown-repo''), (''full_name'', JStr ''unknown/unknown-repo'')]) ''full_name'' = Some fn"
    "get (if truthy rp then rp
        else JObj [(''name'', JStr ''unknown-repo''), (''full_name'', JStr ''unknown/unknown-repo'')]) ''name'' = Some rn"
    "top_commit_message (commits_of payload) = Some top"
    "commit_messages (commits_of payload) = Some cm"
    "collect_files (commits_of payload) ([], [], []) = Some (a, m, d)"
    "formatFileList (take 3 (new_Set a)) = Some al"
    "formatFileList (take 3 (new_Set m)) = Some ml"
    "formatFileList (take 3 (new_Set d)) = Some rl"
    "to_string (if truthy fn then fn else if truthy rn then rn else JStr ''unknown/unknown-repo'') = Some rt"
    "v = \<lparr> pusherName = pn, repoFullName = rt,
           branch = (if stripped = [] then ''unknown'' else stripped),
           commitCount = length (commits_of payload), commitMessages = cm,
           topCommitMessage = top,
           addedFiles = take 3 (new_Set a), modifiedFiles = take 3 (new_Set m),
           removedFiles = take 3 (new_Set d),
           addedText = plus_sign @ '' *Added*:'' @ [nl] @ al,
           modifiedText = pencil @ '' *Modified*:'' @ [nl] @ ml,
           removedText = wastebasket @ '' *Removed*:'' @ [nl] @ rl \<rparr>"
  using assms unfolding handlePushEvent_locals_def Let_def
  by (auto simp: bind_eq_Some_conv split: prod.splits)

text \<open>The text returned when the \<open>try\<close> returns, written out.\<close>

lemma handlePushEvent_text:
  assumes "handlePushEvent_locals payload = Some v"
  shows "handlePushEvent now now_catch payload =
      rocket @ '' *New Push Alert* '' @ rocket @ [nl] @
      divider @ [nl, nl] @
      bust @ '' *Pusher*: @'' @ pusherName v @ [nl, nl] @
      package @ '' *Repository*: '' @ repoFullName v @ [nl, nl] @
      herb @ '' *Branch*: '' @ branch v @ [nl, nl] @
      numbers @ '' *Commits*: '' @ decimal (commitCount v) @
        (if commitCount v = 0 then '' (No commits found)'' else []) @ [nl, nl] @
      scroll @ '' *Commit Messages*:'' @ [nl] @ commitMessages v @ [nl, nl] @
      memo @ '' *Top Commit*: '' @ topCommitMessage v @ [nl, nl] @
      addedText v @ [nl, nl] @
      modifiedText v @ [nl, nl] @
      removedText v @ [nl, nl] @
      clock_face @ '' *Pushed At*: '' @ timestamp now @ [nl] @
      divider @ [nl, nl]"
  by (simp only: handlePushEvent_def handlePushEvent_try_def assms push_alert_def
      option.map option.case)

lemma replace_first_occurrence:
  assumes "p \<noteq> []" and "\<forall>i<length a. \<not> occurs_at p (a @ p @ b) i"
  shows "replace_first p rep (a @ p @ b) = a @ rep @ b"
  using assms(2)
proof (induction a)
  case Nil
  with assms(1) show ?case by (cases p) auto
next
  case (Cons x a)
  from Cons.prems have "\<not> occurs_at p ((x # a) @ p @ b) 0" by auto
  then have no: "take (length p) (x # a @ p @ b) \<noteq> p" by (simp add: occurs_at_def)
  have "\<forall>i<length a. \<not> occurs_at p (a @ p @ b) i"
  proof (intro allI impI)
    fix i assume "i < length a"
    then have "\<not> occurs_at p ((x # a) @ p @ b) (Suc i)" using Cons.prems by auto
    then show "\<not> occurs_at p (a @ p @ b) i" by (simp add: occurs_at_def)
  qed
  then have "replace_first p rep (a @ p @ b) = a @ rep @ b" by (rule Cons.IH)
  with no show ?case by simp
qed

lemma replace_first_absent:
  assumes "p \<noteq> []" and "\<forall>i<length s. \<not> occurs_at p s i"
  shows "replace_first p rep s = s"
  using assms(2)
proof (induction s)
  case Nil
  with assms(1) show ?case by simp
next
  case (Cons x s)
  from Cons.prems have "\<not> occurs_at p (x # s) 0" by auto
  then have no: "take (length p) (x # s) \<noteq> p" by (simp add: occurs_at_def)
  have "\<forall>i<length s. \<not> occurs_at p s i"
  proof (intro allI impI)
    fix i assume "i < length s"
    then have "\<not> occurs_at p (x # s) (Suc i)" using Cons.prems by auto
    then show "\<not> occurs_at p s i" by (simp add: occurs_at_def)
  qed
  then have "replace_first p rep s = s" by (rule Cons.IH)
  with no show ?case by simp
qed

lemma locals_branch:
  assumes "handlePushEvent_locals payload = Some v"
  shows "\<exists>r. get payload ''ref'' = Some r \<and>
    (if truthy r then \<exists>s. r = JStr s \<and> s \<noteq> [] \<and>
        branch v = (if replace_first ''refs/heads/'' [] s = [] then ''unknown''
                    else replace_first ''refs/heads/'' [] s)
     else branch v = ''unknown'')"
proof -
  from assms obtain r stripped where r: "get payload ''ref'' = Some r"
    and s: "js_replace (if truthy r then r else JStr ''refs/heads/unknown'') ''refs/heads/'' [] = Some stripped"
    and b: "branch v = (if stripped = [] then ''unknown'' else stripped)"
    by (elim locals_SomeE) simp
  show ?thesis
  proof (cases "truthy r")
    case True
    with s obtain t where "r = JStr t" "stripped = replace_first ''refs/heads/'' [] t"
      by (cases r) auto
    with True r b show ?thesis by auto
  next
    case False
    with s have "stripped = ''unknown''" by simp
    with False r b show ?thesis by simp
  qed
qed

lemma locals_branch_cases:
  assumes "handlePushEvent_locals payload = Some v"
  shows "(get payload ''ref'' = Some (JStr r) \<and>
            (occurs_at ''refs/heads/'' r 0 \<or> (\<forall>i<length r. \<not> occurs_at ''refs/heads/'' r i)) \<longrightarrow>
            branch v = branch_by_prefix r)
       \<and> (get payload ''ref'' = Some (JStr (a @ ''refs/heads/'' @ c)) \<and>
            (\<forall>i<length a. \<not> occurs_at ''refs/heads/'' (a @ ''refs/heads/'' @ c) i) \<longrightarrow>
            branch v = (if a @ c = [] then ''unknown'' else a @ c))
       \<and> (get payload ''ref'' = Some x \<and> \<not> truthy x \<longrightarrow> branch v = ''unknown'')"
proof -
  from locals_branch [OF assms] obtain r0 where r0: "get payload ''ref'' = Some r0"
    and br: "if truthy r0 then \<exists>s. r0 = JStr s \<and> s \<noteq> [] \<and>
        branch v = (if replace_first ''refs/heads/'' [] s = [] then ''unknown''
                    else replace_first ''refs/heads/'' [] s)
     else branch v = ''unknown''" by blast
  have general: "branch v = (if a @ c = [] then ''unknown'' else a @ c)"
    if "get payload ''ref'' = Some (JStr (a @ ''refs/heads/'' @ c))"
      and "\<forall>i<length a. \<not> occurs_at ''refs/heads/'' (a @ ''refs/heads/'' @ c) i" for a c
  proof -
    have "replace_first ''refs/heads/'' [] (a @ ''refs/heads/'' @ c) = a @ [] @ c"
      using that(2) by (intro replace_first_occurrence) simp_all
    with that(1) r0 br show ?thesis by auto
  qed
  have absent: "branch v = branch_by_prefix r"
    if ref: "get payload ''ref'' = Some (JStr r)"
      and no: "\<forall>i<length r. \<not> occurs_at ''refs/heads/'' r i"
  proof (cases "r = []")
    case True
    with ref r0 br show ?thesis by (simp add: branch_by_prefix_def strip_prefix_def)
  next
    case False
    have "replace_first ''refs/heads/'' [] r = r"
      using no by (intro replace_first_absent) simp_all
    moreover from False no have "\<not> occurs_at ''refs/heads/'' r 0" by auto
    ultimately show ?thesis
      using False ref r0 br by (simp add: branch_by_prefix_def strip_prefix_def occurs_at_def)
  qed
  have at_start: "branch v = branch_by_prefix r"
    if ref: "get payload ''ref'' = Some (JStr r)" and pre: "occurs_at ''refs/heads/'' r 0"
  proof -
    from pre have t: "take (length ''refs/heads/'') r = ''refs/heads/''"
      unfolding occurs_at_def by (simp only: drop_0)
    have "take (length ''refs/heads/'') r @ drop (length ''refs/heads/'') r = r"
      by (rule append_take_drop_id)
    then have r: "r = [] @ ''refs/heads/'' @ drop (length ''refs/heads/'') r"
      by (simp only: t append_Nil)
    have "\<forall>i<length ([]::string).
        \<not> occurs_at ''refs/heads/'' ([] @ ''refs/heads/'' @ drop (length ''refs/heads/'') r) i"
      by simp
    moreover from ref r
    have "get payload ''ref'' = Some (JStr ([] @ ''refs/heads/'' @ drop (length ''refs/heads/'') r))"
      by (simp only:)
    ultimately
    have "branch v = (if [] @ drop (length ''refs/heads/'') r = [] then ''unknown''
                      else [] @ drop (length ''refs/heads/'') r)"
      by (intro general)
    then show ?thesis
      by (simp only: branch_by_prefix_def strip_prefix_def t Let_def if_True append_Nil refl)
  qed
  have falsy: "branch v = ''unknown''" if "get payload ''ref'' = Some x" "\<not> truthy x"
    using that r0 br by auto
  show ?thesis
  proof (intro conjI impI)
    assume "get payload ''ref'' = Some (JStr r) \<and>
      (occurs_at ''refs/heads/'' r 0 \<or> (\<forall>i<length r. \<not> occurs_at ''refs/heads/'' r i))"
    then show "branch v = branch_by_prefix r"
      using absent at_start by (elim conjE disjE)
  next
    assume "get payload ''ref'' = Some (JStr (a @ ''refs/heads/'' @ c)) \<and>
      (\<forall>i<length a. \<not> occurs_at ''refs/heads/'' (a @ ''refs/heads/'' @ c) i)"
    then show "branch v = (if a @ c = [] then ''unknown'' else a @ c)"
      using general [of a c] by (elim conjE)
  next
    assume "get payload ''ref'' = Some x \<and> \<not> truthy x"
    then show "branch v = ''unknown''"
      using falsy by (elim conjE)
  qed
qed

text \<open>
  C6, as amended: the branch that the returned message shows is the ref with the first
  occurrence of \<open>refs/heads/\<close> removed, and \<open>unknown\<close> when nothing is left or the
  ref is absent. For a ref that starts with \<open>refs/heads/\<close>, and for one that does not
  contain it, this is the ref with the prefix stripped: \<open>refs/heads/main\<close> gives
  \<open>main\<close>, an undefined ref gives \<open>unknown\<close>.
\<close>

theorem branch_is_ref_without_refs_heads:
  assumes "handlePushEvent_locals payload = Some v"
  shows "handlePushEvent now now_catch payload =
      rocket @ '' *New Push Alert* '' @ rocket @ [nl] @
      divider @ [nl, nl] @
      bust @ '' *Pusher*: @'' @ pusherName v @ [nl, nl] @
      package @ '' *Repository*: '' @ repoFullName v @ [nl, nl] @
      herb @ '' *Branch*: '' @ branch v @ [nl, nl] @
      numbers @ '' *Commits*: '' @ decimal (commitCount v) @
        (if commitCount v = 0 then '' (No commits found)'' else []) @ [nl, nl] @
      scroll @ '' *Commit Messages*:'' @ [nl] @ commitMessages v @ [nl, nl] @
      memo @ '' *Top Commit*: '' @ topCommitMessage v @ [nl, nl] @
      addedText v @ [nl, nl] @
      modifiedText v @ [nl, nl] @
      removedText v @ [nl, nl] @
      clock_face @ '' *Pushed At*: '' @ timestamp now @ [nl] @
      divider @ [nl, nl]
       \<and> (get payload ''ref'' = Some (JStr r) \<and>
            (occurs_at ''refs/heads/'' r 0 \<or> (\<forall>i<length r. \<not> occurs_at ''refs/heads/'' r i)) \<longrightarrow>
            branch v = branch_by_prefix r)
       \<and> (get payload ''ref'' = Some (JStr (a @ ''refs/heads/'' @ c)) \<and>
            (\<forall>i<length a. \<not> occurs_at ''refs/heads/'' (a @ ''refs/heads/'' @ c) i) \<longrightarrow>
            branch v = (if a @ c = [] then ''unknown'' else a @ c))
       \<and> (get payload ''ref'' = Some x \<and> \<not> truthy x \<longrightarrow> branch v = ''unknown'')"
  by (rule conjI) (rule handlePushEvent_text [OF assms], rule locals_branch_cases [OF assms])

theorem branch_is_ref_without_refs_heads_witness:
  "\<forall>now now_catch.
     handlePushEvent now now_catch (JObj [(''ref'', JStr ''refs/heads/main'')]) =
      rocket @ '' *New Push Alert* '' @ rocket @ [nl] @
      divider @ [nl, nl] @
      bust @ '' *Pusher*: @'' @ ''Unknown'' @ [nl, nl] @
      package @ '' *Repository*: '' @ ''unknown/unknown-repo'' @ [nl, nl] @
      herb @ '' *Branch*: '' @ ''main'' @ [nl, nl] @
      numbers @ '' *Commits*: '' @ ''0 (No commits found)'' @ [nl, nl] @
      scroll @ '' *Commit Messages*:'' @ [nl] @ ''  - None'' @ [nl, nl] @
      memo @ '' *Top Commit*: '' @ ''No commit message provided'' @ [nl, nl] @
      (plus_sign @ '' *Added*:'' @ [nl] @ ''  - None'') @ [nl, nl] @
      (pencil @ '' *Modified*:'' @ [nl] @ ''  - None'') @ [nl, nl] @
      (wastebasket @ '' *Removed*:'' @ [nl] @ ''  - None'') @ [nl, nl] @
      clock_face @ '' *Pushed At*: '' @ timestamp now @ [nl] @
      divider @ [nl, nl]
   \<and> handlePushEvent now now_catch (JObj [(''ref'', JUndefined)]) =
      rocket @ '' *New Push Alert* '' @ rocket @ [nl] @
      divider @ [nl, nl] @
      bust @ '' *Pusher*: @'' @ ''Unknown'' @ [nl, nl] @
      package @ '' *Repository*: '' @ ''unknown/unknown-repo'' @ [nl, nl] @
      herb @ '' *Branch*: '' @ ''unknown'' @ [nl, nl] @
      numbers @ '' *Commits*: '' @ ''0 (No commits found)'' @ [nl, nl] @
      scroll @ '' *Commit Messages*:'' @ [nl] @ ''  - None'' @ [nl, nl] @
      memo @ '' *Top Commit*: '' @ ''No commit message provided'' @ [nl, nl] @
      (plus_sign @ '' *Added*:'' @ [nl] @ ''  - None'') @ [nl, nl] @
      (pencil @ '' *Modified*:'' @ [nl] @ ''  - None'') @ [nl, nl] @
      (wastebasket @ '' *Removed*:'' @ [nl] @ ''  - None'') @ [nl, nl] @
      clock_face @ '' *Pushed At*: '' @ timestamp now @ [nl] @
      divider @ [nl, nl]
   \<and> handlePushEvent now now_catch (JObj [(''ref'', JStr ''refs/tags/refs/heads/v1'')]) =
      rocket @ '' *New Push Alert* '' @ rocket @ [nl] @
      divider @ [nl, nl] @
      bust @ '' *Pusher*: @'' @ ''Unknown'' @ [nl, nl] @
      package @ '' *Repository*: '' @ ''unknown/unknown-repo'' @ [nl, nl] @
      herb @ '' *Branch*: '' @ ''refs/tags/v1'' @ [nl, nl] @
      numbers @ '' *Commits*: '' @ ''0 (No commits found)'' @ [nl, nl] @
      scroll @ '' *Commit Messages*:'' @ [nl] @ ''  - None'' @ [nl, nl] @
      memo @ '' *Top Commit*: '' @ ''No commit message provided'' @ [nl, nl] @
      (plus_sign @ '' *Added*:'' @ [nl] @ ''  - None'') @ [nl, nl] @
      (pencil @ '' *Modified*:'' @ [nl] @ ''  - None'') @ [nl, nl] @
      (wastebasket @ '' *Removed*:'' @ [nl] @ ''  - None'') @ [nl, nl] @
      clock_face @ '' *Pushed At*: '' @ timestamp now @ [nl] @
      divider @ [nl, nl]"
proof (intro allI)
  fix now now_catch :: string
  have v1: "handlePushEvent_locals (JObj [(''ref'', JStr ''refs/heads/main'')]) =
      Some \<lparr> pusherName = ''Unknown'', repoFullName = ''unknown/unknown-repo'', branch = ''main'',
         commitCount = 0, commitMessages = ''  - None'',
         topCommitMessage = ''No commit message provided'',
         addedFiles = [], modifiedFiles = [], removedFiles = [],
         addedText = plus_sign @ '' *Added*:'' @ [nl] @ ''  - None'',
         modifiedText = pencil @ '' *Modified*:'' @ [nl] @ ''  - None'',
         removedText = wastebasket @ '' *Removed*:'' @ [nl] @ ''  - None'' \<rparr>"
    by code_simp
  have v2: "handlePushEvent_locals (JObj [(''ref'', JUndefined)]) =
      Some \<lparr> pusherName = ''Unknown'', repoFullName = ''unknown/unknown-repo'', branch = ''unknown'',
         commitCount = 0, commitMessages = ''  - None'',
         topCommitMessage = ''No commit message provided'',
         addedFiles = [], modifiedFiles = [], removedFiles = [],
         addedText = plus_sign @ '' *Added*:'' @ [nl] @ ''  - None'',
         modifiedText = pencil @ '' *Modified*:'' @ [nl] @ ''  - None'',
         removedText = wastebasket @ '' *Removed*:'' @ [nl] @ ''  - None'' \<rparr>"
    by code_simp
  have v3: "handlePushEvent_locals (JObj [(''ref'', JStr ''refs/tags/refs/heads/v1'')]) =
      Some \<lparr> pusherName = ''Unknown'', repoFullName = ''unknown/unknown-repo'', branch = ''refs/tags/v1'',
         commitCount = 0, commitMessages = ''  - None'',
         topCommitMessage = ''No commit message provided'',
         addedFiles = [], modifiedFiles = [], removedFiles = [],
         addedText = plus_sign @ '' *Added*:'' @ [nl] @ ''  - None'',
         modifiedText = pencil @ '' *Modified*:'' @ [nl] @ ''  - None'',
         removedText = wastebasket @ '' *Removed*:'' @ [nl] @ ''  - None'' \<rparr>"
    by code_simp
  have no: "\<forall>i<length ''refs/tags/''.
      \<not> occurs_at ''refs/heads/'' (''refs/tags/'' @ ''refs/heads/'' @ ''v1'') i"
    by (simp add: occurs_at_def less_Suc_eq)
  note t1 = branch_is_ref_without_refs_heads [OF v1, of now now_catch, where r = "''refs/heads/main''"]
  note t2 = branch_is_ref_without_refs_heads [OF v2, of now now_catch, where x = JUndefined]
  note t3 = branch_is_ref_without_refs_heads [OF v3, of now now_catch,
      where a = "''refs/tags/''" and c = "''v1''"]
  have "branch \<lparr> pusherName = ''Unknown'', repoFullName = ''unknown/unknown-repo'', branch = ''main'',
         commitCount = 0, commitMessages = ''  - None'',
         topCommitMessage = ''No commit message provided'',
         addedFiles = [], modifiedFiles = [], removedFiles = [],
         addedText = plus_sign @ '' *Added*:'' @ [nl] @ ''  - None'',
         modifiedText = pencil @ '' *Modified*:'' @ [nl] @ ''  - None'',
         removedText = wastebasket @ '' *Removed*:'' @ [nl] @ ''  - None'' \<rparr> = branch_by_prefix ''refs/heads/main''"
    using t1 by (simp add: occurs_at_def branch_by_prefix_def strip_prefix_def)
  have "branch \<lparr> pusherName = ''Unknown'', repoFullName = ''unknown/unknown-repo'', branch = ''unknown'',
         commitCount = 0, commitMessages = ''  - None'',
         topCommitMessage = ''No commit message provided'',
         addedFiles = [], modifiedFiles = [], removedFiles = [],
         addedText = plus_sign @ '' *Added*:'' @ [nl] @ ''  - None'',
         modifiedText = pencil @ '' *Modified*:'' @ [nl] @ ''  - None'',
         removedText = wastebasket @ '' *Removed*:'' @ [nl] @ ''  - None'' \<rparr> = ''unknown''"
    using t2 by simp
  have "branch \<lparr> pusherName = ''Unknown'', repoFullName = ''unknown/unknown-repo'', branch = ''refs/tags/v1'',
         commitCount = 0, commitMessages = ''  - None'',
         topCommitMessage = ''No commit message provided'',
         addedFiles = [], modifiedFiles = [], removedFiles = [],
         addedText = plus_sign @ '' *Added*:'' @ [nl] @ ''  - None'',
         modifiedText = pencil @ '' *Modified*:'' @ [nl] @ ''  - None'',
         removedText = wastebasket @ '' *Removed*:'' @ [nl] @ ''  - None'' \<rparr> = ''refs/tags/v1''"
    using t3 no by simp
  have "handlePushEvent now now_catch (JObj [(''ref'', JStr ''refs/heads/main'')]) =
      rocket @ '' *New Push Alert* '' @ rocket @ [nl] @
      divider @ [nl, nl] @
      bust @ '' *Pusher*: @'' @ ''Unknown'' @ [nl, nl] @
      package @ '' *Repository*: '' @ ''unknown/unknown-repo'' @ [nl, nl] @
      herb @ '' *Branch*: '' @ ''main'' @ [nl, nl] @
      numbers @ '' *Commits*: '' @ ''0 (No commits found)'' @ [nl, nl] @
      scroll @ '' *Commit Messages*:'' @ [nl] @ ''  - None'' @ [nl, nl] @
      memo @ '' *Top Commit*: '' @ ''No commit message provided'' @ [nl, nl] @
      (plus_sign @ '' *Added*:'' @ [nl] @ ''  - None'') @ [nl, nl] @
      (pencil @ '' *Modified*:'' @ [nl] @ ''  - None'') @ [nl, nl] @
      (wastebasket @ '' *Removed*:'' @ [nl] @ ''  - None'') @ [nl, nl] @
      clock_face @ '' *Pushed At*: '' @ timestamp now @ [nl] @
      divider @ [nl, nl]"
    using t1 by simp
  moreover have "handlePushEvent now now_catch (JObj [(''ref'', JUndefined)]) =
      rocket @ '' *New Push Alert* '' @ rocket @ [nl] @
      divider @ [nl, nl] @
      bust @ '' *Pusher*: @'' @ ''Unknown'' @ [nl, nl] @
      package @ '' *Repository*: '' @ ''unknown/unknown-repo'' @ [nl, nl] @
      herb @ '' *Branch*: '' @ ''unknown'' @ [nl, nl] @
      numbers @ '' *Commits*: '' @ ''0 (No commits found)'' @ [nl, nl] @
      scroll @ '' *Commit Messages*:'' @ [nl] @ ''  - None'' @ [nl, nl] @
      memo @ '' *Top Commit*: '' @ ''No commit message provided'' @ [nl, nl] @
      (plus_sign @ '' *Added*:'' @ [nl] @ ''  - None'') @ [nl, nl] @
      (pencil @ '' *Modified*:'' @ [nl] @ ''  - None'') @ [nl, nl] @
      (wastebasket @ '' *Removed*:'' @ [nl] @ ''  - None'') @ [nl, nl] @
      clock_face @ '' *Pushed At*: '' @ timestamp now @ [nl] @
      divider @ [nl, nl]"
    using t2 by simp
  moreover have "handlePushEvent now now_catch (JObj [(''ref'', JStr ''refs/tags/refs/heads/v1'')]) =
      rocket @ '' *New Push Alert* '' @ rocket @ [nl] @
      divider @ [nl, nl] @
      bust @ '' *Pusher*: @'' @ ''Unknown'' @ [nl, nl] @
      package @ '' *Repository*: '' @ ''unknown/unknown-repo'' @ [nl, nl] @
      herb @ '' *Branch*: '' @ ''refs/tags/v1'' @ [nl, nl] @
      numbers @ '' *Commits*: '' @ ''0 (No commits found)'' @ [nl, nl] @
      scroll @ '' *Commit Messages*:'' @ [nl] @ ''  - None'' @ [nl, nl] @
      memo @ '' *Top Commit*: '' @ ''No commit message provided'' @ [nl, nl] @
      (plus_sign @ '' *Added*:'' @ [nl] @ ''  - None'') @ [nl, nl] @
      (pencil @ '' *Modified*:'' @ [nl] @ ''  - None'') @ [nl, nl] @
      (wastebasket @ '' *Removed*:'' @ [nl] @ ''  - None'') @ [nl, nl] @
      clock_face @ '' *Pushed At*: '' @ timestamp now @ [nl] @
      divider @ [nl, nl]"
    using t3 by simp
  ultimately show "handlePushEvent now now_catch (JObj [(''ref'', JStr ''refs/heads/main'')]) =
      rocket @ '' *New Push Alert* '' @ rocket @ [nl] @
      divider @ [nl, nl] @
      bust @ '' *Pusher*: @'' @ ''Unknown'' @ [nl, nl] @
      package @ '' *Repository*: '' @ ''unknown/unknown-repo'' @ [nl, nl] @
      herb @ '' *Branch*: '' @ ''main'' @ [nl, nl] @
      numbers @ '' *Commits*: '' @ ''0 (No commits found)'' @ [nl, nl] @
      scroll @ '' *Commit Messages*:'' @ [nl] @ ''  - None'' @ [nl, nl] @
      memo @ '' *Top Commit*: '' @ ''No commit message provided'' @ [nl, nl] @
      (plus_sign @ '' *Added*:'' @ [nl] @ ''  - None'') @ [nl, nl] @
      (pencil @ '' *Modified*:'' @ [nl] @ ''  - None'') @ [nl, nl] @
      (wastebasket @ '' *Removed*:'' @ [nl] @ ''  - None'') @ [nl, nl] @
      clock_face @ '' *Pushed At*: '' @ timestamp now @ [nl] @
      divider @ [nl, nl]
   \<and> handlePushEvent now now_catch (JObj [(''ref'', JUndefined)]) =
      rocket @ '' *New Push Alert* '' @ rocket @ [nl] @
      divider @ [nl, nl] @
      bust @ '' *Pusher*: @'' @ ''Unknown'' @ [nl, nl] @
      package @ '' *Repository*: '' @ ''unknown/unknown-repo'' @ [nl, nl] @
      herb @ '' *Branch*: '' @ ''unknown'' @ [nl, nl] @
      numbers @ '' *Commits*: '' @ ''0 (No commits found)'' @ [nl, nl] @
      scroll @ '' *Commit Messages*:'' @ [nl] @ ''  - None'' @ [nl, nl] @
      memo @ '' *Top Commit*: '' @ ''No commit message provided'' @ [nl, nl] @
      (plus_sign @ '' *Added*:'' @ [nl] @ ''  - None'') @ [nl, nl] @
      (pencil @ '' *Modified*:'' @ [nl] @ ''  - None'') @ [nl, nl] @
      (wastebasket @ '' *Removed*:'' @ [nl] @ ''  - None'') @ [nl, nl] @
      clock_face @ '' *Pushed At*: '' @ timestamp now @ [nl] @
      divider @ [nl, nl]
   \<and> handlePushEvent now now_catch (JObj [(''ref'', JStr ''refs/tags/refs/heads/v1'')]) =
      rocket @ '' *New Push Alert* '' @ rocket @ [nl] @
      divider @ [nl, nl] @
      bust @ '' *Pusher*: @'' @ ''Unknown'' @ [nl, nl] @
      package @ '' *Repository*: '' @ ''unknown/unknown-repo'' @ [nl, nl] @
      herb @ '' *Branch*: '' @ ''refs/tags/v1'' @ [nl, nl] @
      numbers @ '' *Commits*: '' @ ''0 (No commits found)'' @ [nl, nl] @
      scroll @ '' *Commit Messages*:'' @ [nl] @ ''  - None'' @ [nl, nl] @
      memo @ '' *Top Commit*: '' @ ''No commit message provided'' @ [nl, nl] @
      (plus_sign @ '' *Added*:'' @ [nl] @ ''  - None'') @ [nl, nl] @
      (pencil @ '' *Modified*:'' @ [nl] @ ''  - None'') @ [nl, nl] @
      (wastebasket @ '' *Removed*:'' @ [nl] @ ''  - None'') @ [nl, nl] @
      clock_face @ '' *Pushed At*: '' @ timestamp now @ [nl] @
      divider @ [nl, nl]"
    by (intro conjI)
qed

text \<open>
  C6 as stated fails for a ref that holds \<open>refs/heads/\<close> elsewhere than at its start:
  line 36 removes that occurrence, and stripping the prefix would leave the ref as it is.
\<close>

theorem branch_by_prefix_counterexample:
  "\<forall>now now_catch.
     handlePushEvent now now_catch (JObj [(''ref'', JStr ''refs/tags/refs/heads/v1'')]) =
      rocket @ '' *New Push Alert* '' @ rocket @ [nl] @
      divider @ [nl, nl] @
      bust @ '' *Pusher*: @'' @ ''Unknown'' @ [nl, nl] @
      package @ '' *Repository*: '' @ ''unknown/unknown-repo'' @ [nl, nl] @
      herb @ '' *Branch*: '' @ ''refs/tags/v1'' @ [nl, nl] @
      numbers @ '' *Commits*: '' @ ''0 (No commits found)'' @ [nl, nl] @
      scroll @ '' *Commit Messages*:'' @ [nl] @ ''  - None'' @ [nl, nl] @
      memo @ '' *Top Commit*: '' @ ''No commit message provided'' @ [nl, nl] @
      (plus_sign @ '' *Added*:'' @ [nl] @ ''  - None'') @ [nl, nl] @
      (pencil @ '' *Modified*:'' @ [nl] @ ''  - None'') @ [nl, nl] @
      (wastebasket @ '' *Removed*:'' @ [nl] @ ''  - None'') @ [nl, nl] @
      clock_face @ '' *Pushed At*: '' @ timestamp now @ [nl] @
      divider @ [nl, nl]
   \<and> branch_by_prefix ''refs/tags/refs/heads/v1'' = ''refs/tags/refs/heads/v1''
   \<and> handlePushEvent now now_catch (JObj [(''ref'', JStr ''refs/tags/refs/heads/v1'')]) \<noteq>
      rocket @ '' *New Push Alert* '' @ rocket @ [nl] @
      divider @ [nl, nl] @
      bust @ '' *Pusher*: @'' @ ''Unknown'' @ [nl, nl] @
      package @ '' *Repository*: '' @ ''unknown/unknown-repo'' @ [nl, nl] @
      herb @ '' *Branch*: '' @ branch_by_prefix ''refs/tags/refs/heads/v1'' @ [nl, nl] @
      numbers @ '' *Commits*: '' @ ''0 (No commits found)'' @ [nl, nl] @
      scroll @ '' *Commit Messages*:'' @ [nl] @ ''  - None'' @ [nl, nl] @
      memo @ '' *Top Commit*: '' @ ''No commit message provided'' @ [nl, nl] @
      (plus_sign @ '' *Added*:'' @ [nl] @ ''  - None'') @ [nl, nl] @
      (pencil @ '' *Modified*:'' @ [nl] @ ''  - None'') @ [nl, nl] @
      (wastebasket @ '' *Removed*:'' @ [nl] @ ''  - None'') @ [nl, nl] @
      clock_face @ '' *Pushed At*: '' @ timestamp now @ [nl] @
      divider @ [nl, nl]"
proof (intro allI)
  fix now now_catch :: string
  have v: "handlePushEvent_locals (JObj [(''ref'', JStr ''refs/tags/refs/heads/v1'')]) =
      Some \<lparr> pusherName = ''Unknown'', repoFullName = ''unknown/unknown-repo'', branch = ''refs/tags/v1'',
         commitCount = 0, commitMessages = ''  - None'',
         topCommitMessage = ''No commit message provided'',
         addedFiles = [], modifiedFiles = [], removedFiles = [],
         addedText = plus_sign @ '' *Added*:'' @ [nl] @ ''  - None'',
         modifiedText = pencil @ '' *Modified*:'' @ [nl] @ ''  - None'',
         removedText = wastebasket @ '' *Removed*:'' @ [nl] @ ''  - None'' \<rparr>"
    by code_simp
  have p: "branch_by_prefix ''refs/tags/refs/heads/v1'' = ''refs/tags/refs/heads/v1''"
    by (simp add: branch_by_prefix_def strip_prefix_def)
  have t: "handlePushEvent now now_catch (JObj [(''ref'', JStr ''refs/tags/refs/heads/v1'')]) =
      rocket @ '' *New Push Alert* '' @ rocket @ [nl] @
      divider @ [nl, nl] @
      bust @ '' *Pusher*: @'' @ ''Unknown'' @ [nl, nl] @
      package @ '' *Repository*: '' @ ''unknown/unknown-repo'' @ [nl, nl] @
      herb @ '' *Branch*: '' @ ''refs/tags/v1'' @ [nl, nl] @
      numbers @ '' *Commits*: '' @ ''0 (No commits found)'' @ [nl, nl] @
      scroll @ '' *Commit Messages*:'' @ [nl] @ ''  - None'' @ [nl, nl] @
      memo @ '' *Top Commit*: '' @ ''No commit message provided'' @ [nl, nl] @
      (plus_sign @ '' *Added*:'' @ [nl] @ ''  - None'') @ [nl, nl] @
      (pencil @ '' *Modified*:'' @ [nl] @ ''  - None'') @ [nl, nl] @
      (wastebasket @ '' *Removed*:'' @ [nl] @ ''  - None'') @ [nl, nl] @
      clock_face @ '' *Pushed At*: '' @ timestamp now @ [nl] @
      divider @ [nl, nl]"
    using handlePushEvent_text [OF v, of now now_catch] by simp
  have "handlePushEvent now now_catch (JObj [(''ref'', JStr ''refs/tags/refs/heads/v1'')]) \<noteq>
      rocket @ '' *New Push Alert* '' @ rocket @ [nl] @
      divider @ [nl, nl] @
      bust @ '' *Pusher*: @'' @ ''Unknown'' @ [nl, nl] @
      package @ '' *Repository*: '' @ ''unknown/unknown-repo'' @ [nl, nl] @
      herb @ '' *Branch*: '' @ branch_by_prefix ''refs/tags/refs/heads/v1'' @ [nl, nl] @
      numbers @ '' *Commits*: '' @ ''0 (No commits found)'' @ [nl, nl] @
      scroll @ '' *Commit Messages*:'' @ [nl] @ ''  - None'' @ [nl, nl] @
      memo @ '' *Top Commit*: '' @ ''No commit message provided'' @ [nl, nl] @
      (plus_sign @ '' *Added*:'' @ [nl] @ ''  - None'') @ [nl, nl] @
      (pencil @ '' *Modified*:'' @ [nl] @ ''  - None'') @ [nl, nl] @
      (wastebasket @ '' *Removed*:'' @ [nl] @ ''  - None'') @ [nl, nl] @
      clock_face @ '' *Pushed At*: '' @ timestamp now @ [nl] @
      divider @ [nl, nl]"
    unfolding t p by simp
  with t p show "handlePushEvent now now_catch (JObj [(''ref'', JStr ''refs/tags/refs/heads/v1'')]) =
      rocket @ '' *New Push Alert* '' @ rocket @ [nl] @
      divider @ [nl, nl] @
      bust @ '' *Pusher*: @'' @ ''Unknown'' @ [nl, nl] @
      package @ '' *Repository*: '' @ ''unknown/unknown-repo'' @ [nl, nl] @
      herb @ '' *Branch*: '' @ ''refs/tags/v1'' @ [nl, nl] @
      numbers @ '' *Commits*: '' @ ''0 (No commits found)'' @ [nl, nl] @
      scroll @ '' *Commit Messages*:'' @ [nl] @ ''  - None'' @ [nl, nl] @
      memo @ '' *Top Commit*: '' @ ''No commit message provided'' @ [nl, nl] @
      (plus_sign @ '' *Added*:'' @ [nl] @ ''  - None'') @ [nl, nl] @
      (pencil @ '' *Modified*:'' @ [nl] @ ''  - None'') @ [nl, nl] @
      (wastebasket @ '' *Removed*:'' @ [nl] @ ''  - None'') @ [nl, nl] @
      clock_face @ '' *Pushed At*: '' @ timestamp now @ [nl] @
      divider @ [nl, nl]
   \<and> branch_by_prefix ''refs/tags/refs/heads/v1'' = ''refs/tags/refs/heads/v1''
   \<and> handlePushEvent now now_catch (JObj [(''ref'', JStr ''refs/tags/refs/heads/v1'')]) \<noteq>
      rocket @ '' *New Push Alert* '' @ rocket @ [nl] @
      divider @ [nl, nl] @
      bust @ '' *Pusher*: @'' @ ''Unknown'' @ [nl, nl] @
      package @ '' *Repository*: '' @ ''unknown/unknown-repo'' @ [nl, nl] @
      herb @ '' *Branch*: '' @ branch_by_prefix ''refs/tags/refs/heads/v1'' @ [nl, nl] @
      numbers @ '' *Commits*: '' @ ''0 (No commits found)'' @ [nl, nl] @
      scroll @ '' *Commit Messages*:'' @ [nl] @ ''  - None'' @ [nl, nl] @
      memo @ '' *Top Commit*: '' @ ''No commit message provided'' @ [nl, nl] @
      (plus_sign @ '' *Added*:'' @ [nl] @ ''  - None'') @ [nl, nl] @
      (pencil @ '' *Modified*:'' @ [nl] @ ''  - None'') @ [nl, nl] @
      (wastebasket @ '' *Removed*:'' @ [nl] @ ''  - None'') @ [nl, nl] @
      clock_face @ '' *Pushed At*: '' @ timestamp now @ [nl] @
      divider @ [nl, nl]"
    by (intro conjI)
qed

lemma locals_empty_object:
  "handlePushEvent_locals (JObj []) =
     Some \<lparr> pusherName = ''Unknown'', repoFullName = ''unknown/unknown-repo'',
            branch = ''unknown'', commitCount = 0, commitMessages = ''  - None'',
            topCommitMessage = ''No commit message provided'',
            addedFiles = [], modifiedFiles = [], removedFiles = [],
            addedText = plus_sign @ '' *Added*:'' @ [nl] @ ''  - None'',
            modifiedText = pencil @ '' *Modified*:'' @ [nl] @ ''  - None'',
            removedText = wastebasket @ '' *Removed*:'' @ [nl] @ ''  - None'' \<rparr>"
  by (simp add: handlePushEvent_locals_def commits_of_def top_commit_message_def
      commit_messages_def new_Set_def formatFileList_def)

lemma locals_pusher_without_name:
  "handlePushEvent_locals (JObj [(''pusher'', JObj [])]) =
     Some \<lparr> pusherName = ''undefined'', repoFullName = ''unknown/unknown-repo'',
            branch = ''unknown'', commitCount = 0, commitMessages = ''  - None'',
            topCommitMessage = ''No commit message provided'',
            addedFiles = [], modifiedFiles = [], removedFiles = [],
            addedText = plus_sign @ '' *Added*:'' @ [nl] @ ''  - None'',
            modifiedText = pencil @ '' *Modified*:'' @ [nl] @ ''  - None'',
            removedText = wastebasket @ '' *Removed*:'' @ [nl] @ ''  - None'' \<rparr>"
  by (simp add: handlePushEvent_locals_def commits_of_def top_commit_message_def
      commit_messages_def new_Set_def formatFileList_def)

lemma commits_of_not_array:
  "\<forall>xs. get payload ''commits'' \<noteq> Some (JArr xs) \<Longrightarrow> commits_of payload = []"
  by (auto simp: commits_of_def split: option.splits jsval.splits)

lemma handlePushEvent_defaults:
  assumes "handlePushEvent_locals payload = Some v"
  shows "(get payload ''pusher'' = Some p \<and> \<not> truthy p \<longrightarrow> pusherName v = ''Unknown'')
       \<and> (get payload ''ref'' = Some r \<and> \<not> truthy r \<longrightarrow> branch v = ''unknown'')
       \<and> (get payload ''repository'' = Some rp \<and> \<not> truthy rp \<longrightarrow>
            repoFullName v = ''unknown/unknown-repo'')
       \<and> ((\<forall>xs. get payload ''commits'' \<noteq> Some (JArr xs)) \<longrightarrow>
            commitCount v = 0 \<and> commitMessages v = ''  - None'' \<and>
            addedFiles v = [] \<and> modifiedFiles v = [] \<and> removedFiles v = [])"
  using assms
  by (elim locals_SomeE)
    (auto simp: commits_of_not_array commit_messages_def new_Set_def)

text \<open>
  C4: \<open>handlePushEvent\<close> returns a text for every payload. When the body of the \<open>try\<close>
  throws, the text is the fallback \<open>Push processing failed\<close> with the time stamp of the
  handler; otherwise it is the text the \<open>try\<close> returns, and for the empty object this is
  the message built from the defaults.
\<close>

theorem handlePushEvent_never_throws:
  "(handlePushEvent_try now payload = None \<longrightarrow>
      handlePushEvent now now_catch payload =
        warning_sign @ '' *Push processing failed* '' @ warning_sign @ [nl] @
        clock_face @ '' *At*: '' @ timestamp now_catch)
   \<and> (handlePushEvent_try now payload = Some message \<longrightarrow>
      handlePushEvent now now_catch payload = message)
   \<and> handlePushEvent now now_catch (JObj []) =
      push_alert now
        \<lparr> pusherName = ''Unknown'', repoFullName = ''unknown/unknown-repo'',
          branch = ''unknown'', commitCount = 0, commitMessages = ''  - None'',
          topCommitMessage = ''No commit message provided'',
          addedFiles = [], modifiedFiles = [], removedFiles = [],
          addedText = plus_sign @ '' *Added*:'' @ [nl] @ ''  - None'',
          modifiedText = pencil @ '' *Modified*:'' @ [nl] @ ''  - None'',
          removedText = wastebasket @ '' *Removed*:'' @ [nl] @ ''  - None'' \<rparr>"
proof (intro conjI impI)
  assume "handlePushEvent_try now payload = None"
  then show "handlePushEvent now now_catch payload =
        warning_sign @ '' *Push processing failed* '' @ warning_sign @ [nl] @
        clock_face @ '' *At*: '' @ timestamp now_catch"
    by (simp add: handlePushEvent_def push_failed_def)
next
  assume "handlePushEvent_try now payload = Some message"
  then show "handlePushEvent now now_catch payload = message"
    by (simp add: handlePushEvent_def)
next
  show "handlePushEvent now now_catch (JObj []) =
      push_alert now
        \<lparr> pusherName = ''Unknown'', repoFullName = ''unknown/unknown-repo'',
          branch = ''unknown'', commitCount = 0, commitMessages = ''  - None'',
          topCommitMessage = ''No commit message provided'',
          addedFiles = [], modifiedFiles = [], removedFiles = [],
          addedText = plus_sign @ '' *Added*:'' @ [nl] @ ''  - None'',
          modifiedText = pencil @ '' *Modified*:'' @ [nl] @ ''  - None'',
          removedText = wastebasket @ '' *Removed*:'' @ [nl] @ ''  - None'' \<rparr>"
    by (simp add: handlePushEvent_def handlePushEvent_try_def locals_empty_object)
qed

theorem handlePushEvent_never_throws_witness:
  "(\<forall>now. handlePushEvent_try now JNull = None)
   \<and> handlePushEvent ''2024-01-02T03:04:05.678Z'' ''2024-01-02T03:04:06.012Z'' JNull =
        warning_sign @ '' *Push processing failed* '' @ warning_sign @ [nl] @
        clock_face @ '' *At*: 2024-01-02 03:04:06 UTC''
   \<and> handlePushEvent ''2024-01-02T03:04:05.678Z'' ''2024-01-02T03:04:06.012Z''
        (JObj [(''ref'', JNum ''5'')]) =
        warning_sign @ '' *Push processing failed* '' @ warning_sign @ [nl] @
        clock_face @ '' *At*: 2024-01-02 03:04:06 UTC''"
proof -
  have null: "handlePushEvent_try now JNull = None" for now
    by (simp add: handlePushEvent_try_def handlePushEvent_locals_def)
  have num: "handlePushEvent_try ''2024-01-02T03:04:05.678Z'' (JObj [(''ref'', JNum ''5'')]) = None"
    by (simp add: handlePushEvent_try_def handlePushEvent_locals_def)
  have ts: "timestamp ''2024-01-02T03:04:06.012Z'' = ''2024-01-02 03:04:06 UTC''"
    by (simp add: timestamp_def)
  show ?thesis
    using null num ts
      handlePushEvent_never_throws [of "''2024-01-02T03:04:05.678Z''" JNull
        "''2024-01-02T03:04:06.012Z''"]
      handlePushEvent_never_throws [of "''2024-01-02T03:04:05.678Z''"
        "JObj [(''ref'', JNum ''5'')]" "''2024-01-02T03:04:06.012Z''"]
    by simp
qed

text \<open>
  C5: the defaults are those of \<open>handlePushEvent_defaults\<close>, but the pusher's name has
  none of its own. For a payload whose pusher is an object without a name, the message
  reads \<open>@undefined\<close> where the claim expects \<open>Unknown\<close>.
\<close>

theorem pusher_without_name_renders_undefined:
  "map_option pusherName (handlePushEvent_locals (JObj [(''pusher'', JObj [])])) = Some ''undefined''
   \<and> handlePushEvent now now_catch (JObj [(''pusher'', JObj [])]) =
      push_alert now
        \<lparr> pusherName = ''undefined'', repoFullName = ''unknown/unknown-repo'',
          branch = ''unknown'', commitCount = 0, commitMessages = ''  - None'',
          topCommitMessage = ''No commit message provided'',
          addedFiles = [], modifiedFiles = [], removedFiles = [],
          addedText = plus_sign @ '' *Added*:'' @ [nl] @ ''  - None'',
          modifiedText = pencil @ '' *Modified*:'' @ [nl] @ ''  - None'',
          removedText = wastebasket @ '' *Removed*:'' @ [nl] @ ''  - None'' \<rparr>"
  by (simp add: handlePushEvent_def handlePushEvent_try_def locals_pusher_without_name)

lemma map_js_Some_map:
  assumes "map_js f xs = Some ys" and "\<And>x y. x \<in> set xs \<Longrightarrow> f x = Some y \<Longrightarrow> y = g x"
  shows "ys = map g xs"
  using assms
proof (induction xs arbitrary: ys)
  case Nil
  then show ?case by simp
next
  case (Cons x xs)
  from Cons.prems(1) obtain y ys' where y: "f x = Some y" and ys': "map_js f xs = Some ys'"
    and ys: "ys = y # ys'"
    by (auto simp: bind_eq_Some_conv)
  have "y = g x" using Cons.prems(2) y by simp
  moreover have "ys' = map g xs" using ys' Cons.prems(2) by (intro Cons.IH) auto
  ultimately show ?case using ys by simp
qed

lemma commit_line_listed:
  assumes "commit_line c = Some l"
  shows "l = ''  - '' @ listed_message c"
proof -
  from assms obtain m msg where m: "get c ''message'' = Some m"
    and msg: "(if truthy m then split_first m else Some ''No message'') = Some msg"
    and l: "l = ''  - '' @ msg"
    by (auto simp: commit_line_def bind_eq_Some_conv)
  have "msg = listed_message c"
  proof (cases m)
    case (JStr s)
    with m msg show ?thesis
      by (auto simp: listed_message_def message_of_def first_line_def split: if_splits)
  qed (use m msg in \<open>auto simp: listed_message_def message_of_def split: if_splits\<close>)
  with l show ?thesis by simp
qed

lemma join_not_Nil: "ls \<noteq> [] \<Longrightarrow> hd ls \<noteq> [] \<Longrightarrow> join sep ls \<noteq> []"
  by (induction sep ls rule: join.induct) auto

lemma split_lines_not_Nil: "split_lines s \<noteq> []"
  by (induction s) (auto split: list.splits)

lemma split_lines_no_nl: "nl \<notin> set l \<Longrightarrow> split_lines l = [l]"
  by (induction l) (auto split: list.splits)

lemma split_lines_append_nl: "nl \<notin> set l \<Longrightarrow> split_lines (l @ nl # rest) = l # split_lines rest"
  by (induction l) (auto split: list.splits simp: split_lines_not_Nil)

lemma split_lines_join:
  "ls \<noteq> [] \<Longrightarrow> \<forall>l\<in>set ls. nl \<notin> set l \<Longrightarrow> split_lines (join [nl] ls) = ls"
proof (induction "[nl]" ls rule: join.induct)
  case 1
  then show ?case by simp
next
  case (2 x)
  then show ?case by (simp add: split_lines_no_nl)
next
  case (3 x y ys)
  then show ?case by (simp add: split_lines_append_nl)
qed

lemma listed_message_no_nl: "nl \<notin> set (''  - '' @ listed_message c)"
proof -
  have "nl \<notin> set (takeWhile (\<lambda>ch. ch \<noteq> nl) s)" for s
    by (auto dest: set_takeWhileD)
  then show ?thesis by (simp add: listed_message_def first_line_def)
qed

lemma commit_messages_listed:
  assumes "commit_messages cs = Some cm"
  shows "cm = join [nl] (if cs = [] then [''  - None'']
                         else map (\<lambda>c. ''  - '' @ listed_message c) (take 2 cs))"
proof -
  from assms obtain ls where ls: "map_js commit_line (take 2 cs) = Some ls"
    and cm: "cm = (if join [nl] ls = [] then ''  - None'' else join [nl] ls)"
    by (auto simp: commit_messages_def bind_eq_Some_conv Let_def)
  have eq: "ls = map (\<lambda>c. ''  - '' @ listed_message c) (take 2 cs)"
    using ls by (rule map_js_Some_map) (rule commit_line_listed)
  show ?thesis
  proof (cases "cs = []")
    case True
    with eq cm show ?thesis by simp
  next
    case False
    then have "ls \<noteq> []" "hd ls \<noteq> []" using eq by (auto simp: hd_map)
    then have "join [nl] ls \<noteq> []" by (rule join_not_Nil)
    with cm eq False show ?thesis by simp
  qed
qed

lemma locals_commit_messages:
  assumes "handlePushEvent_locals payload = Some v"
  shows "commitMessages v = join [nl] (listed_lines (commits_of payload))"
proof -
  from assms have "commit_messages (commits_of payload) = Some (commitMessages v)"
    by (elim locals_SomeE) simp
  then show ?thesis unfolding listed_lines_def by (rule commit_messages_listed)
qed

lemma split_lines_listed_lines: "split_lines (join [nl] (listed_lines cs)) = listed_lines cs"
proof -
  have "listed_lines cs \<noteq> []" by (simp add: listed_lines_def)
  moreover have "\<forall>l\<in>set (listed_lines cs). nl \<notin> set l"
    using listed_message_no_nl by (auto simp: listed_lines_def)
  ultimately show ?thesis by (rule split_lines_join)
qed

lemma listed_lines_first_lines:
  assumes "\<forall>c\<in>set (take 2 cs). message_of c \<noteq> []"
  shows "listed_lines cs = first_lines_of_two cs"
  using assms by (auto simp: listed_lines_def first_lines_of_two_def listed_message_def)

text \<open>
  C7, as amended: the commit message section of the returned message lists one line for
  each of the first two commits and nothing for the commits after them, each line
  \<open>  - \<close> followed by the first line of the commit's message, or by \<open>No message\<close>
  when the message is empty or absent; for no commit it is the single line \<open>  - None\<close>.
  The lines of the section are exactly these, and when the first two commits have
  messages they are the lines the specification names.
\<close>

theorem commit_messages_lists_first_two:
  assumes "handlePushEvent_locals payload = Some v"
  shows "handlePushEvent now now_catch payload =
      rocket @ '' *New Push Alert* '' @ rocket @ [nl] @
      divider @ [nl, nl] @
      bust @ '' *Pusher*: @'' @ pusherName v @ [nl, nl] @
      package @ '' *Repository*: '' @ repoFullName v @ [nl, nl] @
      herb @ '' *Branch*: '' @ branch v @ [nl, nl] @
      numbers @ '' *Commits*: '' @ decimal (commitCount v) @
        (if commitCount v = 0 then '' (No commits found)'' else []) @ [nl, nl] @
      scroll @ '' *Commit Messages*:'' @ [nl] @ join [nl] (listed_lines (commits_of payload)) @ [nl, nl] @
      memo @ '' *Top Commit*: '' @ topCommitMessage v @ [nl, nl] @
      addedText v @ [nl, nl] @
      modifiedText v @ [nl, nl] @
      removedText v @ [nl, nl] @
      clock_face @ '' *Pushed At*: '' @ timestamp now @ [nl] @
      divider @ [nl, nl]
       \<and> split_lines (join [nl] (listed_lines (commits_of payload))) =
           listed_lines (commits_of payload)
       \<and> ((\<forall>c\<in>set (take 2 (commits_of payload)). message_of c \<noteq> []) \<longrightarrow>
            listed_lines (commits_of payload) = first_lines_of_two (commits_of payload))"
proof (intro conjI impI)
  show "handlePushEvent now now_catch payload =
      rocket @ '' *New Push Alert* '' @ rocket @ [nl] @
      divider @ [nl, nl] @
      bust @ '' *Pusher*: @'' @ pusherName v @ [nl, nl] @
      package @ '' *Repository*: '' @ repoFullName v @ [nl, nl] @
      herb @ '' *Branch*: '' @ branch v @ [nl, nl] @
      numbers @ '' *Commits*: '' @ decimal (commitCount v) @
        (if commitCount v = 0 then '' (No commits found)'' else []) @ [nl, nl] @
      scroll @ '' *Commit Messages*:'' @ [nl] @ join [nl] (listed_lines (commits_of payload)) @ [nl, nl] @
      memo @ '' *Top Commit*: '' @ topCommitMessage v @ [nl, nl] @
      addedText v @ [nl, nl] @
      modifiedText v @ [nl, nl] @
      removedText v @ [nl, nl] @
      clock_face @ '' *Pushed At*: '' @ timestamp now @ [nl] @
      divider @ [nl, nl]"
    by (simp only: handlePushEvent_text [OF assms] locals_commit_messages [OF assms])
  show "split_lines (join [nl] (listed_lines (commits_of payload))) =
           listed_lines (commits_of payload)"
    by (rule split_lines_listed_lines)
  assume "\<forall>c\<in>set (take 2 (commits_of payload)). message_of c \<noteq> []"
  then show "listed_lines (commits_of payload) = first_lines_of_two (commits_of payload)"
    by (rule listed_lines_first_lines)
qed

theorem commit_messages_lists_first_two_witness:
  "\<forall>now now_catch.
     handlePushEvent now now_catch
       (JObj [(''commits'', JArr [JObj [(''message'', JStr [CHR ''a'', nl, CHR ''b''])],
          JObj [(''message'', JStr ''c'')], JObj [(''message'', JStr ''d'')]])]) =
      rocket @ '' *New Push Alert* '' @ rocket @ [nl] @
      divider @ [nl, nl] @
      bust @ '' *Pusher*: @'' @ ''Unknown'' @ [nl, nl] @
      package @ '' *Repository*: '' @ ''unknown/unknown-repo'' @ [nl, nl] @
      herb @ '' *Branch*: '' @ ''unknown'' @ [nl, nl] @
      numbers @ '' *Commits*: '' @ ''3'' @ [nl, nl] @
      scroll @ '' *Commit Messages*:'' @ [nl] @ ''  - a'' @ [nl] @ ''  - c'' @ [nl, nl] @
      memo @ '' *Top Commit*: '' @ ''a'' @ [nl, nl] @
      (plus_sign @ '' *Added*:'' @ [nl] @ ''  - None'') @ [nl, nl] @
      (pencil @ '' *Modified*:'' @ [nl] @ ''  - None'') @ [nl, nl] @
      (wastebasket @ '' *Removed*:'' @ [nl] @ ''  - None'') @ [nl, nl] @
      clock_face @ '' *Pushed At*: '' @ timestamp now @ [nl] @
      divider @ [nl, nl]
   \<and> handlePushEvent now now_catch (JObj [(''commits'', JArr [])]) =
      rocket @ '' *New Push Alert* '' @ rocket @ [nl] @
      divider @ [nl, nl] @
      bust @ '' *Pusher*: @'' @ ''Unknown'' @ [nl, nl] @
      package @ '' *Repository*: '' @ ''unknown/unknown-repo'' @ [nl, nl] @
      herb @ '' *Branch*: '' @ ''unknown'' @ [nl, nl] @
      numbers @ '' *Commits*: '' @ ''0 (No commits found)'' @ [nl, nl] @
      scroll @ '' *Commit Messages*:'' @ [nl] @ ''  - None'' @ [nl, nl] @
      memo @ '' *Top Commit*: '' @ ''No commit message provided'' @ [nl, nl] @
      (plus_sign @ '' *Added*:'' @ [nl] @ ''  - None'') @ [nl, nl] @
      (pencil @ '' *Modified*:'' @ [nl] @ ''  - None'') @ [nl, nl] @
      (wastebasket @ '' *Removed*:'' @ [nl] @ ''  - None'') @ [nl, nl] @
      clock_face @ '' *Pushed At*: '' @ timestamp now @ [nl] @
      divider @ [nl, nl]"
proof (intro allI)
  fix now now_catch :: string
  let ?P = "JObj [(''commits'', JArr [JObj [(''message'', JStr [CHR ''a'', nl, CHR ''b''])],
          JObj [(''message'', JStr ''c'')], JObj [(''message'', JStr ''d'')]])]"
  have v: "handlePushEvent_locals ?P =
      Some \<lparr> pusherName = ''Unknown'', repoFullName = ''unknown/unknown-repo'', branch = ''unknown'',
         commitCount = 3, commitMessages = ''  - a'' @ [nl] @ ''  - c'',
         topCommitMessage = ''a'',
         addedFiles = [], modifiedFiles = [], removedFiles = [],
         addedText = plus_sign @ '' *Added*:'' @ [nl] @ ''  - None'',
         modifiedText = pencil @ '' *Modified*:'' @ [nl] @ ''  - None'',
         removedText = wastebasket @ '' *Removed*:'' @ [nl] @ ''  - None'' \<rparr>"
    by code_simp
  have e: "handlePushEvent_locals (JObj [(''commits'', JArr [])]) =
      Some \<lparr> pusherName = ''Unknown'', repoFullName = ''unknown/unknown-repo'', branch = ''unknown'',
         commitCount = 0, commitMessages = ''  - None'',
         topCommitMessage = ''No commit message provided'',
         addedFiles = [], modifiedFiles = [], removedFiles = [],
         addedText = plus_sign @ '' *Added*:'' @ [nl] @ ''  - None'',
         modifiedText = pencil @ '' *Modified*:'' @ [nl] @ ''  - None'',
         removedText = wastebasket @ '' *Removed*:'' @ [nl] @ ''  - None'' \<rparr>"
    by code_simp
  have all: "\<forall>c\<in>set (take 2 (commits_of ?P)). message_of c \<noteq> []"
    by (simp add: commits_of_def message_of_def)
  note t = commit_messages_lists_first_two [OF v, of now now_catch]
  from t all have "listed_lines (commits_of ?P) = first_lines_of_two (commits_of ?P)"
    by blast
  also have "first_lines_of_two (commits_of ?P) = [''  - a'', ''  - c'']"
    by (simp add: first_lines_of_two_def commits_of_def message_of_def first_line_def)
  finally have lines: "listed_lines (commits_of ?P) = [''  - a'', ''  - c'']" .
  have "handlePushEvent now now_catch ?P =
      rocket @ '' *New Push Alert* '' @ rocket @ [nl] @
      divider @ [nl, nl] @
      bust @ '' *Pusher*: @'' @ ''Unknown'' @ [nl, nl] @
      package @ '' *Repository*: '' @ ''unknown/unknown-repo'' @ [nl, nl] @
      herb @ '' *Branch*: '' @ ''unknown'' @ [nl, nl] @
      numbers @ '' *Commits*: '' @ ''3'' @ [nl, nl] @
      scroll @ '' *Commit Messages*:'' @ [nl] @ ''  - a'' @ [nl] @ ''  - c'' @ [nl, nl] @
      memo @ '' *Top Commit*: '' @ ''a'' @ [nl, nl] @
      (plus_sign @ '' *Added*:'' @ [nl] @ ''  - None'') @ [nl, nl] @
      (pencil @ '' *Modified*:'' @ [nl] @ ''  - None'') @ [nl, nl] @
      (wastebasket @ '' *Removed*:'' @ [nl] @ ''  - None'') @ [nl, nl] @
      clock_face @ '' *Pushed At*: '' @ timestamp now @ [nl] @
      divider @ [nl, nl]"
    using t unfolding lines by simp
  moreover have "handlePushEvent now now_catch (JObj [(''commits'', JArr [])]) =
      rocket @ '' *New Push Alert* '' @ rocket @ [nl] @
      divider @ [nl, nl] @
      bust @ '' *Pusher*: @'' @ ''Unknown'' @ [nl, nl] @
      package @ '' *Repository*: '' @ ''unknown/unknown-repo'' @ [nl, nl] @
      herb @ '' *Branch*: '' @ ''unknown'' @ [nl, nl] @
      numbers @ '' *Commits*: '' @ ''0 (No commits found)'' @ [nl, nl] @
      scroll @ '' *Commit Messages*:'' @ [nl] @ ''  - None'' @ [nl, nl] @
      memo @ '' *Top Commit*: '' @ ''No commit message provided'' @ [nl, nl] @
      (plus_sign @ '' *Added*:'' @ [nl] @ ''  - None'') @ [nl, nl] @
      (pencil @ '' *Modified*:'' @ [nl] @ ''  - None'') @ [nl, nl] @
      (wastebasket @ '' *Removed*:'' @ [nl] @ ''  - None'') @ [nl, nl] @
      clock_face @ '' *Pushed At*: '' @ timestamp now @ [nl] @
      divider @ [nl, nl]"
    using commit_messages_lists_first_two [OF e, of now now_catch]
    by (simp add: listed_lines_def commits_of_def)
  ultimately show "handlePushEvent now now_catch ?P =
      rocket @ '' *New Push Alert* '' @ rocket @ [nl] @
      divider @ [nl, nl] @
      bust @ '' *Pusher*: @'' @ ''Unknown'' @ [nl, nl] @
      package @ '' *Repository*: '' @ ''unknown/unknown-repo'' @ [nl, nl] @
      herb @ '' *Branch*: '' @ ''unknown'' @ [nl, nl] @
      numbers @ '' *Commits*: '' @ ''3'' @ [nl, nl] @
      scroll @ '' *Commit Messages*:'' @ [nl] @ ''  - a'' @ [nl] @ ''  - c'' @ [nl, nl] @
      memo @ '' *Top Commit*: '' @ ''a'' @ [nl, nl] @
      (plus_sign @ '' *Added*:'' @ [nl] @ ''  - None'') @ [nl, nl] @
      (pencil @ '' *Modified*:'' @ [nl] @ ''  - None'') @ [nl, nl] @
      (wastebasket @ '' *Removed*:'' @ [nl] @ ''  - None'') @ [nl, nl] @
      clock_face @ '' *Pushed At*: '' @ timestamp now @ [nl] @
      divider @ [nl, nl]
   \<and> handlePushEvent now now_catch (JObj [(''commits'', JArr [])]) =
      rocket @ '' *New Push Alert* '' @ rocket @ [nl] @
      divider @ [nl, nl] @
      bust @ '' *Pusher*: @'' @ ''Unknown'' @ [nl, nl] @
      package @ '' *Repository*: '' @ ''unknown/unknown-repo'' @ [nl, nl] @
      herb @ '' *Branch*: '' @ ''unknown'' @ [nl, nl] @
      numbers @ '' *Commits*: '' @ ''0 (No commits found)'' @ [nl, nl] @
      scroll @ '' *Commit Messages*:'' @ [nl] @ ''  - None'' @ [nl, nl] @
      memo @ '' *Top Commit*: '' @ ''No commit message provided'' @ [nl, nl] @
      (plus_sign @ '' *Added*:'' @ [nl] @ ''  - None'') @ [nl, nl] @
      (pencil @ '' *Modified*:'' @ [nl] @ ''  - None'') @ [nl, nl] @
      (wastebasket @ '' *Removed*:'' @ [nl] @ ''  - None'') @ [nl, nl] @
      clock_face @ '' *Pushed At*: '' @ timestamp now @ [nl] @
      divider @ [nl, nl]"
    by (intro conjI)
qed

text \<open>
  C7 as stated fails for a commit whose message is the empty text: the guard of line 44
  lists it as \<open>No message\<close>, not as the empty first line of its message.
\<close>

theorem commit_messages_empty_message_counterexample:
  "\<forall>now now_catch.
     handlePushEvent now now_catch (JObj [(''commits'', JArr [JObj [(''message'', JStr [])]])]) =
      rocket @ '' *New Push Alert* '' @ rocket @ [nl] @
      divider @ [nl, nl] @
      bust @ '' *Pusher*: @'' @ ''Unknown'' @ [nl, nl] @
      package @ '' *Repository*: '' @ ''unknown/unknown-repo'' @ [nl, nl] @
      herb @ '' *Branch*: '' @ ''unknown'' @ [nl, nl] @
      numbers @ '' *Commits*: '' @ ''1'' @ [nl, nl] @
      scroll @ '' *Commit Messages*:'' @ [nl] @ ''  - No message'' @ [nl, nl] @
      memo @ '' *Top Commit*: '' @ ''No commit message provided'' @ [nl, nl] @
      (plus_sign @ '' *Added*:'' @ [nl] @ ''  - None'') @ [nl, nl] @
      (pencil @ '' *Modified*:'' @ [nl] @ ''  - None'') @ [nl, nl] @
      (wastebasket @ '' *Removed*:'' @ [nl] @ ''  - None'') @ [nl, nl] @
      clock_face @ '' *Pushed At*: '' @ timestamp now @ [nl] @
      divider @ [nl, nl]
   \<and> join [nl] (first_lines_of_two (commits_of (JObj [(''commits'', JArr [JObj [(''message'', JStr [])]])]))) = ''  - ''
   \<and> handlePushEvent now now_catch (JObj [(''commits'', JArr [JObj [(''message'', JStr [])]])]) \<noteq>
      rocket @ '' *New Push Alert* '' @ rocket @ [nl] @
      divider @ [nl, nl] @
      bust @ '' *Pusher*: @'' @ ''Unknown'' @ [nl, nl] @
      package @ '' *Repository*: '' @ ''unknown/unknown-repo'' @ [nl, nl] @
      herb @ '' *Branch*: '' @ ''unknown'' @ [nl, nl] @
      numbers @ '' *Commits*: '' @ ''1'' @ [nl, nl] @
      scroll @ '' *Commit Messages*:'' @ [nl] @ join [nl] (first_lines_of_two (commits_of (JObj [(''commits'', JArr [JObj [(''message'', JStr [])]])]))) @ [nl, nl] @
      memo @ '' *Top Commit*: '' @ ''No commit message provided'' @ [nl, nl] @
      (plus_sign @ '' *Added*:'' @ [nl] @ ''  - None'') @ [nl, nl] @
      (pencil @ '' *Modified*:'' @ [nl] @ ''  - None'') @ [nl, nl] @
      (wastebasket @ '' *Removed*:'' @ [nl] @ ''  - None'') @ [nl, nl] @
      clock_face @ '' *Pushed At*: '' @ timestamp now @ [nl] @
      divider @ [nl, nl]"
proof (intro allI)
  fix now now_catch :: string
  have v: "handlePushEvent_locals (JObj [(''commits'', JArr [JObj [(''message'', JStr [])]])]) =
      Some \<lparr> pusherName = ''Unknown'', repoFullName = ''unknown/unknown-repo'', branch = ''unknown'',
         commitCount = 1, commitMessages = ''  - No message'',
         topCommitMessage = ''No commit message provided'',
         addedFiles = [], modifiedFiles = [], removedFiles = [],
         addedText = plus_sign @ '' *Added*:'' @ [nl] @ ''  - None'',
         modifiedText = pencil @ '' *Modified*:'' @ [nl] @ ''  - None'',
         removedText = wastebasket @ '' *Removed*:'' @ [nl] @ ''  - None'' \<rparr>"
    by code_simp
  have p: "join [nl] (first_lines_of_two (commits_of (JObj [(''commits'', JArr [JObj [(''message'', JStr [])]])]))) = ''  - ''"
    by (simp add: first_lines_of_two_def commits_of_def message_of_def first_line_def)
  have t: "handlePushEvent now now_catch (JObj [(''commits'', JArr [JObj [(''message'', JStr [])]])]) =
      rocket @ '' *New Push Alert* '' @ rocket @ [nl] @
      divider @ [nl, nl] @
      bust @ '' *Pusher*: @'' @ ''Unknown'' @ [nl, nl] @
      package @ '' *Repository*: '' @ ''unknown/unknown-repo'' @ [nl, nl] @
      herb @ '' *Branch*: '' @ ''unknown'' @ [nl, nl] @
      numbers @ '' *Commits*: '' @ ''1'' @ [nl, nl] @
      scroll @ '' *Commit Messages*:'' @ [nl] @ ''  - No message'' @ [nl, nl] @
      memo @ '' *Top Commit*: '' @ ''No commit message provided'' @ [nl, nl] @
      (plus_sign @ '' *Added*:'' @ [nl] @ ''  - None'') @ [nl, nl] @
      (pencil @ '' *Modified*:'' @ [nl] @ ''  - None'') @ [nl, nl] @
      (wastebasket @ '' *Removed*:'' @ [nl] @ ''  - None'') @ [nl, nl] @
      clock_face @ '' *Pushed At*: '' @ timestamp now @ [nl] @
      divider @ [nl, nl]"
    using handlePushEvent_text [OF v, of now now_catch] by simp
  have "handlePushEvent now now_catch (JObj [(''commits'', JArr [JObj [(''message'', JStr [])]])]) \<noteq>
      rocket @ '' *New Push Alert* '' @ rocket @ [nl] @
      divider @ [nl, nl] @
      bust @ '' *Pusher*: @'' @ ''Unknown'' @ [nl, nl] @
      package @ '' *Repository*: '' @ ''unknown/unknown-repo'' @ [nl, nl] @
      herb @ '' *Branch*: '' @ ''unknown'' @ [nl, nl] @
      numbers @ '' *Commits*: '' @ ''1'' @ [nl, nl] @
      scroll @ '' *Commit Messages*:'' @ [nl] @ join [nl] (first_lines_of_two (commits_of (JObj [(''commits'', JArr [JObj [(''message'', JStr [])]])]))) @ [nl, nl] @
      memo @ '' *Top Commit*: '' @ ''No commit message provided'' @ [nl, nl] @
      (plus_sign @ '' *Added*:'' @ [nl] @ ''  - None'') @ [nl, nl] @
      (pencil @ '' *Modified*:'' @ [nl] @ ''  - None'') @ [nl, nl] @
      (wastebasket @ '' *Removed*:'' @ [nl] @ ''  - None'') @ [nl, nl] @
      clock_face @ '' *Pushed At*: '' @ timestamp now @ [nl] @
      divider @ [nl, nl]"
    unfolding t p by simp
  with t p show "handlePushEvent now now_catch (JObj [(''commits'', JArr [JObj [(''message'', JStr [])]])]) =
      rocket @ '' *New Push Alert* '' @ rocket @ [nl] @
      divider @ [nl, nl] @
      bust @ '' *Pusher*: @'' @ ''Unknown'' @ [nl, nl] @
      package @ '' *Repository*: '' @ ''unknown/unknown-repo'' @ [nl, nl] @
      herb @ '' *Branch*: '' @ ''unknown'' @ [nl, nl] @
      numbers @ '' *Commits*: '' @ ''1'' @ [nl, nl] @
      scroll @ '' *Commit Messages*:'' @ [nl] @ ''  - No message'' @ [nl, nl] @
      memo @ '' *Top Commit*: '' @ ''No commit message provided'' @ [nl, nl] @
      (plus_sign @ '' *Added*:'' @ [nl] @ ''  - None'') @ [nl, nl] @
      (pencil @ '' *Modified*:'' @ [nl] @ ''  - None'') @ [nl, nl] @
      (wastebasket @ '' *Removed*:'' @ [nl] @ ''  - None'') @ [nl, nl] @
      clock_face @ '' *Pushed At*: '' @ timestamp now @ [nl] @
      divider @ [nl, nl]
   \<and> join [nl] (first_lines_of_two (commits_of (JObj [(''commits'', JArr [JObj [(''message'', JStr [])]])]))) = ''  - ''
   \<and> handlePushEvent now now_catch (JObj [(''commits'', JArr [JObj [(''message'', JStr [])]])]) \<noteq>
      rocket @ '' *New Push Alert* '' @ rocket @ [nl] @
      divider @ [nl, nl] @
      bust @ '' *Pusher*: @'' @ ''Unknown'' @ [nl, nl] @
      package @ '' *Repository*: '' @ ''unknown/unknown-repo'' @ [nl, nl] @
      herb @ '' *Branch*: '' @ ''unknown'' @ [nl, nl] @
      numbers @ '' *Commits*: '' @ ''1'' @ [nl, nl] @
      scroll @ '' *Commit Messages*:'' @ [nl] @ join [nl] (first_lines_of_two (commits_of (JObj [(''commits'', JArr [JObj [(''message'', JStr [])]])]))) @ [nl, nl] @
      memo @ '' *Top Commit*: '' @ ''No commit message provided'' @ [nl, nl] @
      (plus_sign @ '' *Added*:'' @ [nl] @ ''  - None'') @ [nl, nl] @
      (pencil @ '' *Modified*:'' @ [nl] @ ''  - None'') @ [nl, nl] @
      (wastebasket @ '' *Removed*:'' @ [nl] @ ''  - None'') @ [nl, nl] @
      clock_face @ '' *Pushed At*: '' @ timestamp now @ [nl] @
      divider @ [nl, nl]"
    by (intro conjI)
qed

lemma file_field_typed_text:
  "file_field_typed k c \<Longrightarrow> x \<in> set (file_field k c) \<Longrightarrow> is_text x"
  by (auto simp: file_field_typed_def file_field_def list_all_iff
      split: option.splits jsval.splits)

lemma push_field_typed:
  assumes "push_field c k files = Some files'" and "file_field_typed k c"
  shows "files' = files @ file_field k c"
proof -
  from assms(1) obtain f where f: "get c k = Some f"
    and r: "(if truthy f then Option.bind (spread f) (\<lambda>xs. Some (files @ xs)) else Some files)
            = Some files'"
    by (auto simp: push_field_def bind_eq_Some_conv)
  show ?thesis
  proof (cases f)
    case (JArr xs)
    with f r show ?thesis by (simp add: file_field_def)
  qed (use f r assms(2) in \<open>auto simp: file_field_def file_field_typed_def\<close>)
qed

lemma collect_files_typed:
  assumes "collect_files cs (a, m, d) = Some (a', m', d')" and "list_all commit_typed cs"
  shows "a' = a @ concat (map (file_field ''added'') cs)
       \<and> m' = m @ concat (map (file_field ''modified'') cs)
       \<and> d' = d @ concat (map (file_field ''removed'') cs)"
  using assms
proof (induction cs arbitrary: a m d)
  case Nil
  then show ?case by simp
next
  case (Cons c cs)
  from Cons.prems(1) obtain a1 m1 d1 where
    a1: "push_field c ''added'' a = Some a1" and
    m1: "push_field c ''modified'' m = Some m1" and
    d1: "push_field c ''removed'' d = Some d1" and
    rest: "collect_files cs (a1, m1, d1) = Some (a', m', d')"
    by (auto simp: bind_eq_Some_conv)
  from Cons.prems(2) have c: "commit_typed c" and cs: "list_all commit_typed cs" by simp_all
  from c have "a1 = a @ file_field ''added'' c" "m1 = m @ file_field ''modified'' c"
    "d1 = d @ file_field ''removed'' c"
    using a1 m1 d1 by (auto simp: commit_typed_def intro: push_field_typed)
  with Cons.IH [OF rest cs] show ?case by simp
qed

lemma all_files_texts:
  assumes "list_all commit_typed (commits_of payload)"
  shows "list_all is_text (all_files ''added'' payload)"
    and "list_all is_text (all_files ''modified'' payload)"
    and "list_all is_text (all_files ''removed'' payload)"
  using assms
  by (auto simp: all_files_def list_all_iff commit_typed_def dest: file_field_typed_text)

lemma is_text_primitive: "is_text x \<Longrightarrow> is_primitive x"
  by (cases x) auto

lemma texts_primitive: "list_all is_text xs \<Longrightarrow> list_all is_primitive xs"
  by (induction xs) (simp_all add: is_text_primitive)

lemma set_add_primitive:
  "is_primitive x \<Longrightarrow> set_add members x = (if x \<in> set members then members else members @ [x])"
  by (auto simp: set_add_def same_value_zero_def list_ex_iff)

lemma foldl_set_add:
  "list_all is_primitive xs \<Longrightarrow>
   foldl set_add members xs = members @ unique (filter (\<lambda>x. x \<notin> set members) xs)"
proof (induction xs arbitrary: members)
  case Nil
  then show ?case by simp
next
  case (Cons x xs)
  then have x: "is_primitive x" and xs: "list_all is_primitive xs" by simp_all
  show ?case
  proof (cases "x \<in> set members")
    case True
    with x Cons.IH [OF xs, of members] show ?thesis by (simp add: set_add_primitive)
  next
    case False
    have "filter (\<lambda>y. y \<notin> set (members @ [x])) xs
          = removeAll x (filter (\<lambda>y. y \<notin> set members) xs)"
      by (induction xs) auto
    with False x Cons.IH [OF xs, of "members @ [x]"] show ?thesis
      by (simp add: set_add_primitive)
  qed
qed

lemma new_Set_unique: "list_all is_primitive xs \<Longrightarrow> new_Set xs = unique xs"
  using foldl_set_add [of xs "[]"] by (simp add: new_Set_def)

lemma set_unique: "set (unique xs) = set xs"
  by (induction xs rule: unique.induct) auto

lemma distinct_unique: "distinct (unique xs)"
  by (induction xs rule: unique.induct) (auto simp: set_unique)

lemma first_occurrences_from:
  "map (\<lambda>i. (ys @ xs) ! i)
     (filter (\<lambda>i. (ys @ xs) ! i \<notin> set (take i (ys @ xs))) [length ys..<length ys + length xs])
   = unique (filter (\<lambda>x. x \<notin> set ys) xs)"
proof (induction xs arbitrary: ys)
  case Nil
  then show ?case by simp
next
  case (Cons x xs)
  have range: "[length ys..<length ys + length (x # xs)]
      = length ys # [length (ys @ [x])..<length (ys @ [x]) + length xs]"
    by (subst upt_conv_Cons) simp_all
  have rest: "map (\<lambda>i. ((ys @ [x]) @ xs) ! i)
     (filter (\<lambda>i. ((ys @ [x]) @ xs) ! i \<notin> set (take i ((ys @ [x]) @ xs)))
        [length (ys @ [x])..<length (ys @ [x]) + length xs])
   = unique (filter (\<lambda>y. y \<notin> set (ys @ [x])) xs)"
    by (rule Cons.IH)
  have filt: "filter (\<lambda>y. y \<notin> set (ys @ [x])) xs = removeAll x (filter (\<lambda>y. y \<notin> set ys) xs)"
    by (induction xs) auto
  have here: "(ys @ x # xs) ! length ys = x" "take (length ys) (ys @ x # xs) = ys"
    by simp_all
  show ?case
  proof (cases "x \<in> set ys")
    case True
    then have "filter (\<lambda>y. y \<notin> set (ys @ [x])) xs = filter (\<lambda>y. y \<notin> set ys) xs"
      by (intro filter_cong) auto
    with rest True here show ?thesis unfolding range by simp
  next
    case False
    with rest filt here show ?thesis unfolding range by simp
  qed
qed

lemma unique_first_occurrences: "unique xs = first_occurrences xs"
  using first_occurrences_from [of "[]" xs] by (simp add: first_occurrences_def)

lemma file_line_text: "is_text f \<Longrightarrow> file_line f = Some l \<Longrightarrow> l = ''  - '' @ text_of f"
  by (cases f) (auto simp: file_line_def)

lemma formatFileList_texts:
  assumes "formatFileList fs = Some l" and "list_all is_text fs"
  shows "l = bullet_list (map text_of fs)"
proof (cases "fs = []")
  case True
  with assms(1) show ?thesis by (simp add: formatFileList_def bullet_list_def)
next
  case False
  with assms(1) obtain ls where ls: "map_js file_line fs = Some ls" and l: "l = join [nl] ls"
    by (auto simp: formatFileList_def)
  have "ls = map (\<lambda>f. ''  - '' @ text_of f) fs"
    using ls
  proof (rule map_js_Some_map)
    fix x y assume "x \<in> set fs" "file_line x = Some y"
    moreover from \<open>x \<in> set fs\<close> assms(2) have "is_text x" by (simp add: list_all_iff)
    ultimately show "y = ''  - '' @ text_of x" by (intro file_line_text)
  qed
  with l False show ?thesis by (simp add: bullet_list_def comp_def)
qed

lemma take_unique_texts: "list_all is_text xs \<Longrightarrow> list_all is_text (take n (unique xs))"
  by (auto simp: list_all_iff set_unique dest: in_set_takeD)

lemma locals_files:
  assumes "handlePushEvent_locals payload = Some v"
    and "list_all commit_typed (commits_of payload)"
  shows "addedFiles v = take 3 (unique (all_files ''added'' payload))"
    and "modifiedFiles v = take 3 (unique (all_files ''modified'' payload))"
    and "removedFiles v = take 3 (unique (all_files ''removed'' payload))"
    and "addedText v = plus_sign @ '' *Added*:'' @ [nl] @ bullet_list (map text_of (addedFiles v))"
    and "modifiedText v =
           pencil @ '' *Modified*:'' @ [nl] @ bullet_list (map text_of (modifiedFiles v))"
    and "removedText v =
           wastebasket @ '' *Removed*:'' @ [nl] @ bullet_list (map text_of (removedFiles v))"
proof -
  from assms(1) obtain a m d al ml rl where
    coll: "collect_files (commits_of payload) ([], [], []) = Some (a, m, d)" and
    al: "formatFileList (take 3 (new_Set a)) = Some al" and
    ml: "formatFileList (take 3 (new_Set m)) = Some ml" and
    rl: "formatFileList (take 3 (new_Set d)) = Some rl" and
    fields: "addedFiles v = take 3 (new_Set a)" "modifiedFiles v = take 3 (new_Set m)"
      "removedFiles v = take 3 (new_Set d)"
      "addedText v = plus_sign @ '' *Added*:'' @ [nl] @ al"
      "modifiedText v = pencil @ '' *Modified*:'' @ [nl] @ ml"
      "removedText v = wastebasket @ '' *Removed*:'' @ [nl] @ rl"
    by (elim locals_SomeE) simp
  from collect_files_typed [OF coll assms(2)]
  have a: "a = all_files ''added'' payload" and m: "m = all_files ''modified'' payload"
    and d: "d = all_files ''removed'' payload"
    by (simp_all add: all_files_def)
  note texts = all_files_texts [OF assms(2)]
  have sets: "new_Set a = unique (all_files ''added'' payload)"
    "new_Set m = unique (all_files ''modified'' payload)"
    "new_Set d = unique (all_files ''removed'' payload)"
    unfolding a m d by (intro new_Set_unique texts_primitive texts)+
  show "addedFiles v = take 3 (unique (all_files ''added'' payload))"
    and "modifiedFiles v = take 3 (unique (all_files ''modified'' payload))"
    and "removedFiles v = take 3 (unique (all_files ''removed'' payload))"
    using fields sets by simp_all
  have "al = bullet_list (map text_of (take 3 (unique (all_files ''added'' payload))))"
    using al unfolding sets
    by (rule formatFileList_texts) (rule take_unique_texts, rule texts)
  then show "addedText v = plus_sign @ '' *Added*:'' @ [nl] @ bullet_list (map text_of (addedFiles v))"
    using fields sets by simp
  have "ml = bullet_list (map text_of (take 3 (unique (all_files ''modified'' payload))))"
    using ml unfolding sets
    by (rule formatFileList_texts) (rule take_unique_texts, rule texts)
  then show "modifiedText v =
           pencil @ '' *Modified*:'' @ [nl] @ bullet_list (map text_of (modifiedFiles v))"
    using fields sets by simp
  have "rl = bullet_list (map text_of (take 3 (unique (all_files ''removed'' payload))))"
    using rl unfolding sets
    by (rule formatFileList_texts) (rule take_unique_texts, rule texts)
  then show "removedText v =
           wastebasket @ '' *Removed*:'' @ [nl] @ bullet_list (map text_of (removedFiles v))"
    using fields sets by simp
qed

text \<open>
  C8: for commits whose \<open>added\<close>, \<open>modified\<close> and \<open>removed\<close> fields are arrays of
  strings or absent, each of the three file sections of the returned message is built from
  that field concatenated
  across all commits, with every value kept once (\<open>set_unique\<close>,
  \<open>distinct_unique\<close>), cut to at most three entries, and shown as a bulleted list, or
  as \<open>  - None\<close> when no entry is left.
\<close>

theorem file_sections_aggregate_all_commits:
  assumes "handlePushEvent_locals payload = Some v"
    and "list_all commit_typed (commits_of payload)"
  shows "handlePushEvent now now_catch payload =
      rocket @ '' *New Push Alert* '' @ rocket @ [nl] @
      divider @ [nl, nl] @
      bust @ '' *Pusher*: @'' @ pusherName v @ [nl, nl] @
      package @ '' *Repository*: '' @ repoFullName v @ [nl, nl] @
      herb @ '' *Branch*: '' @ branch v @ [nl, nl] @
      numbers @ '' *Commits*: '' @ decimal (commitCount v) @
        (if commitCount v = 0 then '' (No commits found)'' else []) @ [nl, nl] @
      scroll @ '' *Commit Messages*:'' @ [nl] @ commitMessages v @ [nl, nl] @
      memo @ '' *Top Commit*: '' @ topCommitMessage v @ [nl, nl] @
      (plus_sign @ '' *Added*:'' @ [nl] @
          bullet_list (map text_of (take 3 (unique (all_files ''added'' payload))))) @ [nl, nl] @
      (pencil @ '' *Modified*:'' @ [nl] @
          bullet_list (map text_of (take 3 (unique (all_files ''modified'' payload))))) @ [nl, nl] @
      (wastebasket @ '' *Removed*:'' @ [nl] @
          bullet_list (map text_of (take 3 (unique (all_files ''removed'' payload))))) @ [nl, nl] @
      clock_face @ '' *Pushed At*: '' @ timestamp now @ [nl] @
      divider @ [nl, nl]"
proof -
  note f = locals_files [OF assms]
  have "addedText v = plus_sign @ '' *Added*:'' @ [nl] @
          bullet_list (map text_of (take 3 (unique (all_files ''added'' payload))))"
    and "modifiedText v = pencil @ '' *Modified*:'' @ [nl] @
          bullet_list (map text_of (take 3 (unique (all_files ''modified'' payload))))"
    and "removedText v = wastebasket @ '' *Removed*:'' @ [nl] @
          bullet_list (map text_of (take 3 (unique (all_files ''removed'' payload))))"
    using f(4-6) unfolding f(1-3) by simp_all
  then show ?thesis
    by (simp only: handlePushEvent_text [OF assms(1)])
qed

text \<open>
  C10: the deduplicated file lists keep first-occurrence order. With the files of a field
  laid out in commit order, and in array order within a commit, the list shown holds the
  entries at the first three positions where a value stands for the first time, in the
  order of these positions.
\<close>

theorem file_lists_first_occurrence_order:
  assumes "handlePushEvent_locals payload = Some v"
    and "list_all commit_typed (commits_of payload)"
  shows "addedFiles v = take 3 (first_occurrences (all_files ''added'' payload))
       \<and> modifiedFiles v = take 3 (first_occurrences (all_files ''modified'' payload))
       \<and> removedFiles v = take 3 (first_occurrences (all_files ''removed'' payload))"
  using locals_files(1-3) [OF assms] by (simp only: unique_first_occurrences)

theorem file_sections_aggregate_all_commits_witness:
  "\<forall>now now_catch.
     handlePushEvent now now_catch
       (JObj [(''commits'', JArr [JObj [(''added'', JArr [JStr ''x'', JStr ''x'', JStr ''y''])],
          JObj [(''modified'', JArr [JStr ''m''])],
          JObj [(''added'', JArr [JStr ''z'', JStr ''w''])]])]) =
      rocket @ '' *New Push Alert* '' @ rocket @ [nl] @
      divider @ [nl, nl] @
      bust @ '' *Pusher*: @'' @ ''Unknown'' @ [nl, nl] @
      package @ '' *Repository*: '' @ ''unknown/unknown-repo'' @ [nl, nl] @
      herb @ '' *Branch*: '' @ ''unknown'' @ [nl, nl] @
      numbers @ '' *Commits*: '' @ ''3'' @ [nl, nl] @
      scroll @ '' *Commit Messages*:'' @ [nl] @ ''  - No message'' @ [nl] @ ''  - No message'' @ [nl, nl] @
      memo @ '' *Top Commit*: '' @ ''No commit message provided'' @ [nl, nl] @
      (plus_sign @ '' *Added*:'' @ [nl] @ ''  - x'' @ [nl] @ ''  - y'' @ [nl] @ ''  - z'') @ [nl, nl] @
      (pencil @ '' *Modified*:'' @ [nl] @ ''  - m'') @ [nl, nl] @
      (wastebasket @ '' *Removed*:'' @ [nl] @ ''  - None'') @ [nl, nl] @
      clock_face @ '' *Pushed At*: '' @ timestamp now @ [nl] @
      divider @ [nl, nl]"
proof (intro allI)
  fix now now_catch :: string
  let ?P = "JObj [(''commits'', JArr [JObj [(''added'', JArr [JStr ''x'', JStr ''x'', JStr ''y''])],
          JObj [(''modified'', JArr [JStr ''m''])],
          JObj [(''added'', JArr [JStr ''z'', JStr ''w''])]])]"
  have v: "handlePushEvent_locals ?P =
      Some \<lparr> pusherName = ''Unknown'', repoFullName = ''unknown/unknown-repo'', branch = ''unknown'',
         commitCount = 3, commitMessages = ''  - No message'' @ [nl] @ ''  - No message'',
         topCommitMessage = ''No commit message provided'',
         addedFiles = [JStr ''x'', JStr ''y'', JStr ''z''], modifiedFiles = [JStr ''m''], removedFiles = [],
         addedText = plus_sign @ '' *Added*:'' @ [nl] @ ''  - x'' @ [nl] @ ''  - y'' @ [nl] @ ''  - z'',
         modifiedText = pencil @ '' *Modified*:'' @ [nl] @ ''  - m'',
         removedText = wastebasket @ '' *Removed*:'' @ [nl] @ ''  - None'' \<rparr>"
    by code_simp
  have typed: "list_all commit_typed (commits_of ?P)" by code_simp
  have a: "take 3 (unique (all_files ''added'' ?P)) = [JStr ''x'', JStr ''y'', JStr ''z'']"
    by code_simp
  have m: "take 3 (unique (all_files ''modified'' ?P)) = [JStr ''m'']"
    by code_simp
  have d: "take 3 (unique (all_files ''removed'' ?P)) = []"
    by code_simp
  show "handlePushEvent now now_catch ?P =
      rocket @ '' *New Push Alert* '' @ rocket @ [nl] @
      divider @ [nl, nl] @
      bust @ '' *Pusher*: @'' @ ''Unknown'' @ [nl, nl] @
      package @ '' *Repository*: '' @ ''unknown/unknown-repo'' @ [nl, nl] @
      herb @ '' *Branch*: '' @ ''unknown'' @ [nl, nl] @
      numbers @ '' *Commits*: '' @ ''3'' @ [nl, nl] @
      scroll @ '' *Commit Messages*:'' @ [nl] @ ''  - No message'' @ [nl] @ ''  - No message'' @ [nl, nl] @
      memo @ '' *Top Commit*: '' @ ''No commit message provided'' @ [nl, nl] @
      (plus_sign @ '' *Added*:'' @ [nl] @ ''  - x'' @ [nl] @ ''  - y'' @ [nl] @ ''  - z'') @ [nl, nl] @
      (pencil @ '' *Modified*:'' @ [nl] @ ''  - m'') @ [nl, nl] @
      (wastebasket @ '' *Removed*:'' @ [nl] @ ''  - None'') @ [nl, nl] @
      clock_face @ '' *Pushed At*: '' @ timestamp now @ [nl] @
      divider @ [nl, nl]"
    using file_sections_aggregate_all_commits [OF v typed, of now now_catch]
    unfolding a m d by (simp add: bullet_list_def)
qed

theorem file_lists_first_occurrence_order_witness:
  "map_option addedFiles
     (handlePushEvent_locals
        (JObj [(''commits'', JArr [JObj [(''added'', JArr [JStr ''b'', JStr ''a''])],
                                   JObj [(''added'', JArr [JStr ''a'', JStr ''c'', JStr ''b'',
                                                           JStr ''d''])]])]))
     = Some [JStr ''b'', JStr ''a'', JStr ''c'']"
proof -
  let ?P = "JObj [(''commits'', JArr [JObj [(''added'', JArr [JStr ''b'', JStr ''a''])],
                                   JObj [(''added'', JArr [JStr ''a'', JStr ''c'', JStr ''b'',
                                                           JStr ''d''])]])]"
  have "handlePushEvent_locals ?P \<noteq> None" by code_simp
  then obtain v where v: "handlePushEvent_locals ?P = Some v" by blast
  have typed: "list_all commit_typed (commits_of ?P)" by code_simp
  have a: "take 3 (first_occurrences (all_files ''added'' ?P)) = [JStr ''b'', JStr ''a'', JStr ''c'']"
    by code_simp
  from file_lists_first_occurrence_order [OF v typed]
  have "addedFiles v = [JStr ''b'', JStr ''a'', JStr ''c'']"
    by (simp add: a)
  then show ?thesis by (simp add: v)
qed

end
